theory Spec2Isabelle
  imports Main "HOL-Library.Signed_Division"
begin

section \<open>JavaScript values\<close>

text \<open>
  The values the library handles: raised values, the fields of error objects, the
  fields of stack frames. Numbers are the integers (line and column numbers, indices)
  and \<open>NaN\<close>; an object is a reference, compared by identity.
\<close>

datatype jsval = Undefined | Null | JBool bool | Num int | NaN | Str string | Obj nat

fun truthy :: "jsval \<Rightarrow> bool" where
  "truthy Undefined = False"
| "truthy Null = False"
| "truthy (JBool b) = b"
| "truthy (Num n) = (n \<noteq> 0)"
| "truthy NaN = False"
| "truthy (Str s) = (s \<noteq> [])"
| "truthy (Obj r) = True"

text \<open>\<open>a === b\<close>: equal values of one type, objects by reference, \<open>NaN\<close> never.\<close>

fun strict_eq :: "jsval \<Rightarrow> jsval \<Rightarrow> bool" where
  "strict_eq NaN b = False"
| "strict_eq a NaN = False"
| "strict_eq a b = (a = b)"

text \<open>\<open>a || b\<close>\<close>

definition js_or :: "jsval \<Rightarrow> jsval \<Rightarrow> jsval" where
  "js_or a b = (if truthy a then a else b)"

subsection \<open>Decimal strings and numeric conversion\<close>

definition digit_char :: "nat \<Rightarrow> char" where
  "digit_char d = char_of (48 + d)"

definition is_digit :: "char \<Rightarrow> bool" where
  "is_digit c = (48 \<le> (of_char c :: nat) \<and> (of_char c :: nat) \<le> 57)"

definition digit_val :: "char \<Rightarrow> nat" where
  "digit_val c = of_char c - 48"

fun show_nat_fuel :: "nat \<Rightarrow> nat \<Rightarrow> string" where
  "show_nat_fuel 0 n = [digit_char (n mod 10)]"
| "show_nat_fuel (Suc k) n =
     (if n < 10 then [digit_char n] else show_nat_fuel k (n div 10) @ [digit_char (n mod 10)])"

text \<open>A number below \<open>10 ^ (n + 1)\<close> has at most \<open>n + 1\<close> digits, so \<open>n\<close> rounds suffice.\<close>

definition show_nat :: "nat \<Rightarrow> string" where
  "show_nat n = show_nat_fuel n n"

definition show_int :: "int \<Rightarrow> string" where
  "show_int i = (if i < 0 then CHR ''-'' # show_nat (nat (- i)) else show_nat (nat i))"

definition parse_digits :: "string \<Rightarrow> nat" where
  "parse_digits s = foldl (\<lambda>acc c. 10 * acc + digit_val c) 0 s"

text \<open>
  \<open>ToNumber\<close>. A string converts when it is empty (to 0) or a run of decimal digits, the
  only strings the library converts (its patterns capture line and column numbers with
  \<open>\d+\<close>); every other string is taken to \<open>NaN\<close>. An object converts to \<open>NaN\<close> (no
  \<open>valueOf\<close> is modelled).
\<close>

fun to_number :: "jsval \<Rightarrow> jsval" where
  "to_number Undefined = NaN"
| "to_number Null = Num 0"
| "to_number (JBool b) = Num (if b then 1 else 0)"
| "to_number (Num n) = Num n"
| "to_number NaN = NaN"
| "to_number (Str s) = (if list_all is_digit s then Num (int (parse_digits s)) else NaN)"
| "to_number (Obj r) = NaN"

text \<open>\<open>ToString\<close>; an object prints as a plain object does.\<close>

fun to_string :: "jsval \<Rightarrow> string" where
  "to_string Undefined = ''undefined''"
| "to_string Null = ''null''"
| "to_string (JBool b) = (if b then ''true'' else ''false'')"
| "to_string (Num n) = show_int n"
| "to_string NaN = ''NaN''"
| "to_string (Str s) = s"
| "to_string (Obj r) = ''[object Object]''"

text \<open>\<open>a - b\<close>: always numeric.\<close>

definition js_minus :: "jsval \<Rightarrow> jsval \<Rightarrow> jsval" where
  "js_minus a b =
     (case (to_number a, to_number b) of (Num x, Num y) \<Rightarrow> Num (x - y) | _ \<Rightarrow> NaN)"

text \<open>\<open>a + b\<close>: concatenation as soon as one operand is a string (or an object).\<close>

fun stringish :: "jsval \<Rightarrow> bool" where
  "stringish (Str s) = True"
| "stringish (Obj r) = True"
| "stringish v = False"

definition js_plus :: "jsval \<Rightarrow> jsval \<Rightarrow> jsval" where
  "js_plus a b =
     (if stringish a \<or> stringish b then Str (to_string a @ to_string b)
      else (case (to_number a, to_number b) of (Num x, Num y) \<Rightarrow> Num (x + y) | _ \<Rightarrow> NaN))"

text \<open>\<open>Math.max(a, b)\<close> and \<open>Math.min(a, b)\<close>: \<open>NaN\<close> as soon as one argument is.\<close>

definition math_max :: "jsval \<Rightarrow> jsval \<Rightarrow> jsval" where
  "math_max a b =
     (case (to_number a, to_number b) of (Num x, Num y) \<Rightarrow> Num (max x y) | _ \<Rightarrow> NaN)"

definition math_min :: "jsval \<Rightarrow> jsval \<Rightarrow> jsval" where
  "math_min a b =
     (case (to_number a, to_number b) of (Num x, Num y) \<Rightarrow> Num (min x y) | _ \<Rightarrow> NaN)"

text \<open>
  \<open>xs[i]\<close> on an array of strings, for an index that is a number: the element, or
  \<open>undefined\<close> out of range and at \<open>NaN\<close>.
\<close>

fun js_index :: "string list \<Rightarrow> jsval \<Rightarrow> jsval" where
  "js_index xs (Num k) = (if 0 \<le> k \<and> nat k < length xs then Str (xs ! nat k) else Undefined)"
| "js_index xs v = Undefined"

text \<open>The values \<open>i\<close> takes in \<open>for (let i = start; i < end; ++i)\<close>.\<close>

fun for_range :: "jsval \<Rightarrow> jsval \<Rightarrow> int list" where
  "for_range (Num a) (Num b) = [a..b - 1]"
| "for_range a b = []"

text \<open>\<open>s.split(c)\<close> for a one-character separator.\<close>

fun split_on :: "char \<Rightarrow> string \<Rightarrow> string list" where
  "split_on c [] = [[]]"
| "split_on c (x # xs) =
     (if x = c then [] # split_on c xs
      else (case split_on c xs of [] \<Rightarrow> [[x]] | l # ls \<Rightarrow> (x # l) # ls))"

definition newline :: char where
  "newline = CHR 0x0A"

section \<open>Configuration (config.js)\<close>

record config =
  remoteFetching :: bool
  collectWindowErrors :: bool
  collectSourceErrors :: bool
  linesOfContext :: int
  debug :: bool
  reportFuncName :: string

definition default_config :: config where
  "default_config =
     \<lparr> remoteFetching = False, collectWindowErrors = True, collectSourceErrors = True,
       linesOfContext = 11, debug = False, reportFuncName = ''ErrorWatch.report'' \<rparr>"

section \<open>The host: regular expressions, the document, the network\<close>

text \<open>
  The regular expressions of computeStackTrace.js, by the names the source binds them
  to: \<open>ReUrlParts\<close> is the literal of getSource, \<open>ReFunctionArgNames\<close> and
  \<open>ReGuessFunction\<close> are guessFunctionName's, \<open>ReQuotedName\<close> is the literal that finds a
  name between single quotes in a message, \<open>ReIsUndefined\<close> the one that reads
  "X is undefined"; \<open>ReChrome\<close>, \<open>ReGecko\<close>, \<open>ReWinjs\<close>, \<open>ReGeckoEval\<close> and \<open>ReChromeEval\<close>
  are computeStackTraceFromStackProp's; \<open>ReOpera10\<close> and \<open>ReOpera11\<close> are the two of
  computeStackTraceFromStacktraceProp; \<open>ReLine1\<close>, \<open>ReLine2\<close>, \<open>ReLine3\<close> are lineRE1 to
  lineRE3; \<open>ReCode\<close> and \<open>ReEvent\<close> are codeRE and eventRE; \<open>ReFunctionName\<close> is the
  caller walk's functionName. \<open>RegExp src flags\<close> is one built at run time with
  \<open>new RegExp(src, flags)\<close>.
\<close>

datatype regex =
    ReUrlParts
  | ReFunctionArgNames
  | ReGuessFunction
  | ReQuotedName
  | ReIsUndefined
  | ReChrome
  | ReGecko
  | ReWinjs
  | ReGeckoEval
  | ReChromeEval
  | ReOpera10
  | ReOpera11
  | ReLine1
  | ReLine2
  | ReLine3
  | ReCode
  | ReEvent
  | ReFunctionName
  | RegExp string string

text \<open>What \<open>re.exec(s)\<close> returns on a match: the index, and the groups (group 0 first).\<close>

record rmatch =
  m_index :: nat
  m_groups :: "string option list"

definition grp :: "rmatch \<Rightarrow> nat \<Rightarrow> jsval" where
  "grp m k =
     (if k < length (m_groups m) then (case m_groups m ! k of None \<Rightarrow> Undefined | Some s \<Rightarrow> Str s)
      else Undefined)"

text \<open>
  The host the library runs in. The regular-expression engine, the document and the
  synchronous request are the browser's; the model takes them as they answer:
  \<open>re_exec\<close> is \<open>RegExp.prototype.exec\<close>, \<open>document_domain\<close> is \<open>window.document.domain\<close>
  (\<open>None\<close> when reading it throws), \<open>xhr_get\<close> the response text of a synchronous GET
  (\<open>None\<close> when the request throws), \<open>obj_get r p\<close> the property \<open>p\<close> of the object
  \<open>r\<close> (\<open>Undefined\<close> when it has none; getters are plain values), \<open>scripts\<close> the
  document's script elements in order (\<open>s_src\<close> empty for an inline script) and
  \<open>location_href\<close> the address of the page. The page has a document.
\<close>

record script =
  s_src :: string
  s_innerText :: string

record env =
  re_exec :: "regex \<Rightarrow> string \<Rightarrow> rmatch option"
  document_domain :: "string option"
  xhr_get :: "string \<Rightarrow> string option"
  obj_get :: "nat \<Rightarrow> string \<Rightarrow> jsval"
  scripts :: "script list"
  location_href :: string

section \<open>The source cache\<close>

type_synonym cache = "string \<rightharpoonup> string list"

definition UNKNOWN_FUNCTION :: string where
  "UNKNOWN_FUNCTION = ''?''"

definition loadSource :: "env \<Rightarrow> config \<Rightarrow> string \<Rightarrow> string" where
  "loadSource e cfg url =
     (if \<not> remoteFetching cfg then []
      else (case xhr_get e url of Some t \<Rightarrow> t | None \<Rightarrow> []))"

definition getSource :: "env \<Rightarrow> config \<Rightarrow> cache \<Rightarrow> jsval \<Rightarrow> string list \<times> cache" where
  "getSource e cfg c url =
     (case url of
        Str u \<Rightarrow>
          (case c u of
             Some ls \<Rightarrow> (ls, c)
           | None \<Rightarrow>
               (let domain = (case document_domain e of Some d \<Rightarrow> d | None \<Rightarrow> []);
                    source =
                      (case re_exec e ReUrlParts u of
                         Some m \<Rightarrow> (if grp m 2 = Str domain then loadSource e cfg u else [])
                       | None \<Rightarrow> []);
                    ls = (if source \<noteq> [] then split_on newline source else [])
                in (ls, c(u \<mapsto> ls))))
      | _ \<Rightarrow> ([], c))"

text \<open>
  The loop of guessFunctionName: \<open>k\<close> rounds are left, \<open>i\<close> is the loop counter and
  \<open>line\<close> the text accumulated so far. A line out of range reads as \<open>undefined\<close> and
  is prepended as that word; the test \<open>!_isUndefined(line)\<close> holds of every string.
\<close>

fun guessLoop :: "env \<Rightarrow> string list \<Rightarrow> jsval \<Rightarrow> nat \<Rightarrow> nat \<Rightarrow> string \<Rightarrow> jsval" where
  "guessLoop e source lineNo 0 i line = Str UNKNOWN_FUNCTION"
| "guessLoop e source lineNo (Suc k) i line =
     (let line' = to_string (js_index source (js_minus lineNo (Num (int i)))) @ line in
      case re_exec e ReGuessFunction line' of
        Some m \<Rightarrow> grp m 1
      | None \<Rightarrow>
          (case re_exec e ReFunctionArgNames line' of
             Some m \<Rightarrow> grp m 1
           | None \<Rightarrow> guessLoop e source lineNo k (Suc i) line'))"

definition guessFunctionName :: "env \<Rightarrow> config \<Rightarrow> cache \<Rightarrow> jsval \<Rightarrow> jsval \<Rightarrow> jsval \<times> cache" where
  "guessFunctionName e cfg c url lineNo =
     (let (source, c') = getSource e cfg c url in
      if source = [] then (Str UNKNOWN_FUNCTION, c')
      else (guessLoop e source lineNo 10 0 [], c'))"

text \<open>
  gatherContext: the lines around \<open>line\<close>, or \<open>None\<close> for \<open>null\<close>. \<open>Math.floor(n / 2)\<close> is
  \<open>div\<close> and \<open>%\<close> is the remainder with the sign of the dividend.
\<close>

definition gatherContext ::
  "env \<Rightarrow> config \<Rightarrow> cache \<Rightarrow> jsval \<Rightarrow> jsval \<Rightarrow> jsval list option \<times> cache" where
  "gatherContext e cfg c url line =
     (let (source, c') = getSource e cfg c url in
      if source = [] then (None, c')
      else
        (let linesBefore = linesOfContext cfg div 2;
             linesAfter = linesBefore + (linesOfContext cfg smod 2);
             start = math_max (Num 0) (js_minus (js_minus line (Num linesBefore)) (Num 1));
             end' = math_min (Num (int (length source)))
                      (js_minus (js_plus line (Num linesAfter)) (Num 1));
             context = filter (\<lambda>v. v \<noteq> Undefined)
                         (map (\<lambda>i. js_index source (Num i)) (for_range start end'))
         in (if length context > 0 then Some context else None, c')))"

section \<open>Stack frames and traces\<close>

text \<open>
  A frame as the strategies build it. A field holding \<open>Undefined\<close> stands for a property
  that is absent or undefined; \<open>f_args = None\<close> is a frame without an \<open>args\<close> property
  (the one augmentation builds), \<open>f_context = None\<close> a context that is \<open>null\<close> or absent.
\<close>

record frame =
  f_url :: jsval
  f_func :: jsval
  f_args :: "string list option"
  f_line :: jsval
  f_column :: jsval
  f_context :: "jsval list option"

text \<open>
  A trace. \<open>t_stack = None\<close> is an object without a \<open>stack\<close> property; \<open>t_incomplete\<close> and
  \<open>t_partial\<close> are \<open>None\<close> until something assigns them.
\<close>

record trace =
  t_name :: jsval
  t_message :: jsval
  t_mode :: string
  t_stack :: "frame list option"
  t_incomplete :: "bool option"
  t_partial :: "bool option"

text \<open>
  What a call can throw: a \<open>TypeError\<close> the engine raises (a property read on \<open>null\<close> or
  \<open>undefined\<close>, a call of something that is no function), or a value the program throws.
\<close>

datatype exn = TypeError | Raised jsval

section \<open>Searching the source text\<close>

definition backslash :: char where
  "backslash = CHR 0x5C"

definition regex_special :: "char \<Rightarrow> bool" where
  "regex_special ch = (ch \<in> set ''-[]{}()*+?.,^$|#'' \<or> ch = backslash)"

definition escapeRegExp :: "string \<Rightarrow> string" where
  "escapeRegExp txt = concat (map (\<lambda>ch. if regex_special ch then [backslash, ch] else [ch]) txt)"

text \<open>\<open>n > v\<close> for a number \<open>n\<close>: false when \<open>v\<close> does not convert.\<close>

definition num_gt :: "int \<Rightarrow> jsval \<Rightarrow> bool" where
  "num_gt n v = (case to_number v of Num k \<Rightarrow> n > k | _ \<Rightarrow> False)"

text \<open>
  findSourceInLine: the column of \<open>fragment\<close> on a line, \<open>Null\<close> when not found. The
  line read may be \<open>undefined\<close> (a negative index), which \<open>exec\<close> converts to a string.
\<close>

definition findSourceInLine ::
  "env \<Rightarrow> config \<Rightarrow> cache \<Rightarrow> jsval \<Rightarrow> jsval \<Rightarrow> jsval \<Rightarrow> jsval \<times> cache" where
  "findSourceInLine e cfg c fragment url line =
     (let (source, c') = getSource e cfg c url;
          re = RegExp ([backslash, CHR ''b''] @ escapeRegExp (to_string fragment) @ [backslash, CHR ''b'']) [];
          line' = js_minus line (Num 1)
      in if num_gt (int (length source)) line' then
           (case re_exec e re (to_string (js_index source line')) of
              Some m \<Rightarrow> (Num (int (m_index m)), c')
            | None \<Rightarrow> (Null, c'))
         else (Null, c'))"

section \<open>Augmentation\<close>

text \<open>
  augmentStackTraceWithInitialElement. The trace is updated in place, so the model
  returns it, also when the call throws: a trace without a \<open>stack\<close> property makes
  \<open>stackInfo.stack.length\<close> a \<open>TypeError\<close>, after \<open>incomplete\<close> has been assigned. The
  candidate frame \<open>initial\<close> starts with \<open>url\<close> and \<open>line\<close> only, so its function name and
  context are always looked up.
\<close>

definition augmentStackTraceWithInitialElement ::
  "env \<Rightarrow> config \<Rightarrow> cache \<Rightarrow> trace \<Rightarrow> jsval \<Rightarrow> jsval \<Rightarrow> jsval \<Rightarrow> (exn + bool) \<times> trace \<times> cache" where
  "augmentStackTraceWithInitialElement e cfg c stackInfo url lineNo message =
     (if truthy url \<and> truthy lineNo then
        (let t1 = stackInfo\<lparr>t_incomplete := Some False\<rparr>;
             (func, c1) = guessFunctionName e cfg c url lineNo;
             (context, c2) = gatherContext e cfg c1 url lineNo;
             (column, c3) =
               (case re_exec e ReQuotedName (to_string message) of
                  Some m \<Rightarrow> findSourceInLine e cfg c2 (grp m 1) url lineNo
                | None \<Rightarrow> (Undefined, c2));
             initial = \<lparr>f_url = url, f_func = func, f_args = None, f_line = lineNo,
                        f_column = column, f_context = context\<rparr>
         in case t_stack t1 of
              None \<Rightarrow> (Inl TypeError, t1, c3)
            | Some [] \<Rightarrow> (Inr True, t1\<lparr>t_stack := Some [initial], t_partial := Some True\<rparr>, c3)
            | Some (fr0 # rest) \<Rightarrow>
                (if strict_eq (f_url fr0) url \<and> strict_eq (f_line fr0) lineNo then
                   (Inr False, t1, c3)
                 else if strict_eq (f_url fr0) url \<and> \<not> truthy (f_line fr0)
                         \<and> strict_eq (f_func fr0) func then
                   (Inr False,
                    t1\<lparr>t_stack := Some (fr0\<lparr>f_line := lineNo, f_context := context\<rparr> # rest)\<rparr>, c3)
                 else
                   (Inr True,
                    t1\<lparr>t_stack := Some (initial # fr0 # rest), t_partial := Some True\<rparr>, c3)))
      else (Inr False, stackInfo\<lparr>t_incomplete := Some True\<rparr>, c))"

section \<open>Reading the raised value\<close>

text \<open>
  A property read throws on \<open>undefined\<close> and \<open>null\<close>; on any other primitive the
  properties the library reads (\<open>stack\<close>, \<open>stacktrace\<close>, \<open>message\<close>, \<open>name\<close>, ...) are
  \<open>undefined\<close>.
\<close>

definition readable :: "jsval \<Rightarrow> bool" where
  "readable v = (v \<noteq> Undefined \<and> v \<noteq> Null)"

definition get_prop :: "env \<Rightarrow> jsval \<Rightarrow> string \<Rightarrow> jsval" where
  "get_prop e v p = (case v of Obj r \<Rightarrow> obj_get e r p | _ \<Rightarrow> Undefined)"

subsection \<open>String helpers\<close>

definition starts_with :: "string \<Rightarrow> string \<Rightarrow> bool" where
  "starts_with p s = (take (length p) s = p)"

text \<open>\<open>s.indexOf(p)\<close>, \<open>None\<close> for -1.\<close>

fun index_of :: "string \<Rightarrow> string \<Rightarrow> nat option" where
  "index_of p [] = (if p = [] then Some 0 else None)"
| "index_of p (x # xs) =
     (if starts_with p (x # xs) then Some 0 else map_option Suc (index_of p xs))"

fun join_with :: "string \<Rightarrow> string list \<Rightarrow> string" where
  "join_with sep [] = []"
| "join_with sep [x] = x"
| "join_with sep (x # y # ys) = x @ sep @ join_with sep (y # ys)"

text \<open>\<open>s.split(',')\<close> of a value that must be a string to have the method.\<close>

definition split_comma :: "jsval \<Rightarrow> string list" where
  "split_comma v = split_on (CHR '','') (to_string v)"

text \<open>Whitespace, for texts in ASCII (with the no-break space).\<close>

definition is_space :: "char \<Rightarrow> bool" where
  "is_space ch = ((of_char ch :: nat) \<in> {9, 10, 11, 12, 13, 32, 160})"

text \<open>\<open>s.replace(/^\s*/, '')\<close>\<close>

definition strip_leading_space :: "string \<Rightarrow> string" where
  "strip_leading_space s = dropWhile is_space s"

section \<open>Strategy: the stack property\<close>

text \<open>
  One line of \<open>ex.stack\<close>, tried against \<open>chrome\<close>, \<open>winjs\<close>, \<open>gecko\<close> in this order.
  \<open>Inr None\<close> is a line no pattern matches (\<open>continue\<close>). In the gecko branch the
  assignment \<open>stack[0].column = ex.columnNumber + 1\<close> runs only when \<open>i === 0\<close>, where the
  array \<open>stack\<close> is still empty, so it throws.
\<close>

definition chrome_element :: "env \<Rightarrow> rmatch \<Rightarrow> frame" where
  "chrome_element e parts =
     (let p2 = grp parts 2;
          isNative = (truthy p2 \<and> starts_with ''native'' (to_string p2));
          isEval = (truthy p2 \<and> starts_with ''eval'' (to_string p2));
          submatch = (if isEval then re_exec e ReChromeEval (to_string p2) else None);
          (q2, q3, q4) =
            (case submatch of
               Some sm \<Rightarrow> (grp sm 1, grp sm 2, grp sm 3)
             | None \<Rightarrow> (p2, grp parts 3, grp parts 4))
      in \<lparr>f_url = (if \<not> isNative then q2 else Null),
          f_func = js_or (grp parts 1) (Str UNKNOWN_FUNCTION),
          f_args = Some (if isNative then [to_string q2] else []),
          f_line = (if truthy q3 then to_number q3 else Null),
          f_column = (if truthy q4 then to_number q4 else Null),
          f_context = None\<rparr>)"

definition winjs_element :: "rmatch \<Rightarrow> frame" where
  "winjs_element parts =
     \<lparr>f_url = grp parts 2,
      f_func = js_or (grp parts 1) (Str UNKNOWN_FUNCTION),
      f_args = Some [],
      f_line = to_number (grp parts 3),
      f_column = (if truthy (grp parts 4) then to_number (grp parts 4) else Null),
      f_context = None\<rparr>"

definition gecko_element :: "env \<Rightarrow> jsval \<Rightarrow> nat \<Rightarrow> rmatch \<Rightarrow> exn + frame" where
  "gecko_element e ex i parts =
     (let p3 = grp parts 3;
          isEval = (truthy p3 \<and> index_of '' > eval'' (to_string p3) \<noteq> None);
          submatch = (if isEval then re_exec e ReGeckoEval (to_string p3) else None)
      in case submatch of
           Some sm \<Rightarrow>
             Inr \<lparr>f_url = grp sm 1,
                  f_func = js_or (grp parts 1) (Str UNKNOWN_FUNCTION),
                  f_args = Some (if truthy (grp parts 2) then split_comma (grp parts 2) else []),
                  f_line = (if truthy (grp sm 2) then to_number (grp sm 2) else Null),
                  f_column = Null,
                  f_context = None\<rparr>
         | None \<Rightarrow>
             (if i = 0 \<and> \<not> truthy (grp parts 5) \<and> get_prop e ex ''columnNumber'' \<noteq> Undefined
              then Inl TypeError
              else
                Inr \<lparr>f_url = p3,
                     f_func = js_or (grp parts 1) (Str UNKNOWN_FUNCTION),
                     f_args = Some (if truthy (grp parts 2) then split_comma (grp parts 2) else []),
                     f_line = (if truthy (grp parts 4) then to_number (grp parts 4) else Null),
                     f_column = (if truthy (grp parts 5) then to_number (grp parts 5) else Null),
                     f_context = None\<rparr>))"

definition stackprop_element :: "env \<Rightarrow> jsval \<Rightarrow> nat \<Rightarrow> string \<Rightarrow> exn + frame option" where
  "stackprop_element e ex i l =
     (case re_exec e ReChrome l of
        Some parts \<Rightarrow> Inr (Some (chrome_element e parts))
      | None \<Rightarrow>
          (case re_exec e ReWinjs l of
             Some parts \<Rightarrow> Inr (Some (winjs_element parts))
           | None \<Rightarrow>
               (case re_exec e ReGecko l of
                  Some parts \<Rightarrow>
                    (case gecko_element e ex i parts of Inl x \<Rightarrow> Inl x | Inr el \<Rightarrow> Inr (Some el))
                | None \<Rightarrow> Inr None)))"

text \<open>The tail of the loop body: the function name when it is missing, the context.\<close>

definition stackprop_fill :: "env \<Rightarrow> config \<Rightarrow> cache \<Rightarrow> frame \<Rightarrow> frame \<times> cache" where
  "stackprop_fill e cfg c el =
     (let (el1, c1) =
            (if \<not> truthy (f_func el) \<and> truthy (f_line el) then
               (let (fn, c') = guessFunctionName e cfg c (f_url el) (f_line el)
                in (el\<lparr>f_func := fn\<rparr>, c'))
             else (el, c));
          (ctx, c2) =
            (if truthy (f_line el1) then gatherContext e cfg c1 (f_url el1) (f_line el1)
             else (None, c1))
      in (el1\<lparr>f_context := ctx\<rparr>, c2))"

fun stackprop_loop ::
  "env \<Rightarrow> config \<Rightarrow> jsval \<Rightarrow> nat \<Rightarrow> string list \<Rightarrow> cache \<Rightarrow> (exn + frame list) \<times> cache" where
  "stackprop_loop e cfg ex i [] c = (Inr [], c)"
| "stackprop_loop e cfg ex i (l # ls) c =
     (case stackprop_element e ex i l of
        Inl x \<Rightarrow> (Inl x, c)
      | Inr None \<Rightarrow> stackprop_loop e cfg ex (Suc i) ls c
      | Inr (Some el) \<Rightarrow>
          (let (el', c1) = stackprop_fill e cfg c el in
           case stackprop_loop e cfg ex (Suc i) ls c1 of
             (Inl x, c2) \<Rightarrow> (Inl x, c2)
           | (Inr rest, c2) \<Rightarrow> (Inr (el' # rest), c2)))"

text \<open>
  computeStackTraceFromStackProp. \<open>Inr None\<close> is the result \<open>null\<close>. A truthy \<open>stack\<close>
  that is no string has no \<open>split\<close> to call.
\<close>

definition computeStackTraceFromStackProp ::
  "env \<Rightarrow> config \<Rightarrow> cache \<Rightarrow> jsval \<Rightarrow> (exn + trace option) \<times> cache" where
  "computeStackTraceFromStackProp e cfg c ex =
     (if \<not> readable ex then (Inl TypeError, c)
      else if \<not> truthy (get_prop e ex ''stack'') then (Inr None, c)
      else
        (case get_prop e ex ''stack'' of
           Str st \<Rightarrow>
             (let reference = re_exec e ReIsUndefined (to_string (get_prop e ex ''message'')) in
              case stackprop_loop e cfg ex 0 (split_on newline st) c of
                (Inl x, c1) \<Rightarrow> (Inl x, c1)
              | (Inr [], c1) \<Rightarrow> (Inr None, c1)
              | (Inr (fr0 # rest), c1) \<Rightarrow>
                  (let (fr0', c2) =
                     (case reference of
                        Some rm \<Rightarrow>
                          (if truthy (f_line fr0) \<and> \<not> truthy (f_column fr0) then
                             (let (col, c') = findSourceInLine e cfg c1 (grp rm 1) (f_url fr0) (f_line fr0)
                              in (fr0\<lparr>f_column := col\<rparr>, c'))
                           else (fr0, c1))
                      | None \<Rightarrow> (fr0, c1))
                   in (Inr (Some \<lparr>t_name = get_prop e ex ''name'', t_message = get_prop e ex ''message'',
                                   t_mode = ''stack'', t_stack = Some (fr0' # rest),
                                   t_incomplete = None, t_partial = None\<rparr>), c2)))
         | _ \<Rightarrow> (Inl TypeError, c)))"

section \<open>Strategy: the stacktrace property\<close>

definition opera_element :: "env \<Rightarrow> string \<Rightarrow> frame option" where
  "opera_element e l =
     (case re_exec e ReOpera10 l of
        Some parts \<Rightarrow>
          Some \<lparr>f_url = grp parts 2, f_func = grp parts 3, f_args = Some [],
                f_line = to_number (grp parts 1), f_column = Null, f_context = None\<rparr>
      | None \<Rightarrow>
          (case re_exec e ReOpera11 l of
             Some parts \<Rightarrow>
               Some \<lparr>f_url = grp parts 6,
                     f_func = js_or (grp parts 3) (grp parts 4),
                     f_args = Some (if truthy (grp parts 5) then split_comma (grp parts 5) else []),
                     f_line = to_number (grp parts 1),
                     f_column = to_number (grp parts 2),
                     f_context = None\<rparr>
           | None \<Rightarrow> None))"

text \<open>
  The body of the loop for a matched line; \<open>nxt\<close> is \<open>lines[line + 1]\<close>, \<open>undefined\<close>
  past the end.
\<close>

definition opera_fill :: "env \<Rightarrow> config \<Rightarrow> cache \<Rightarrow> jsval \<Rightarrow> frame \<Rightarrow> frame \<times> cache" where
  "opera_fill e cfg c nxt el =
     (let (el1, c1) =
            (if \<not> truthy (f_func el) \<and> truthy (f_line el) then
               (let (fn, c') = guessFunctionName e cfg c (f_url el) (f_line el)
                in (el\<lparr>f_func := fn\<rparr>, c'))
             else (el, c));
          (ctx, c2) =
            (if truthy (f_line el1) then gatherContext e cfg c1 (f_url el1) (f_line el1)
             else (None, c1))
      in (el1\<lparr>f_context := (case ctx of Some x \<Rightarrow> Some x | None \<Rightarrow> Some [nxt])\<rparr>, c2))"

text \<open>\<open>for (let line = 0; line < lines.length; line += 2)\<close>\<close>

fun stacktrace_loop :: "env \<Rightarrow> config \<Rightarrow> string list \<Rightarrow> cache \<Rightarrow> frame list \<times> cache" where
  "stacktrace_loop e cfg [] c = ([], c)"
| "stacktrace_loop e cfg (l # ls) c =
     (let nxt = (case ls of [] \<Rightarrow> Undefined | n # _ \<Rightarrow> Str n) in
      case opera_element e l of
        None \<Rightarrow> stacktrace_loop e cfg (drop 1 ls) c
      | Some el \<Rightarrow>
          (let (el', c1) = opera_fill e cfg c nxt el;
               (rest, c2) = stacktrace_loop e cfg (drop 1 ls) c1
           in (el' # rest, c2)))"

text \<open>
  computeStackTraceFromStacktraceProp. \<open>Inr None\<close> is a falsy result: \<open>undefined\<close> when
  the property is missing, \<open>null\<close> when no line matched.
\<close>

definition computeStackTraceFromStacktraceProp ::
  "env \<Rightarrow> config \<Rightarrow> cache \<Rightarrow> jsval \<Rightarrow> (exn + trace option) \<times> cache" where
  "computeStackTraceFromStacktraceProp e cfg c ex =
     (if \<not> readable ex then (Inl TypeError, c)
      else if \<not> truthy (get_prop e ex ''stacktrace'') then (Inr None, c)
      else
        (case get_prop e ex ''stacktrace'' of
           Str st \<Rightarrow>
             (case stacktrace_loop e cfg (split_on newline st) c of
                ([], c1) \<Rightarrow> (Inr None, c1)
              | (fr0 # rest, c1) \<Rightarrow>
                  (Inr (Some \<lparr>t_name = get_prop e ex ''name'', t_message = get_prop e ex ''message'',
                              t_mode = ''stacktrace'', t_stack = Some (fr0 # rest),
                              t_incomplete = None, t_partial = None\<rparr>), c1))
         | _ \<Rightarrow> (Inl TypeError, c)))"

section \<open>Locating a code fragment\<close>

text \<open>\<open>s.lastIndexOf('\n', k)\<close>: the last line break at or before \<open>k\<close>, or -1.\<close>

definition last_newline_upto :: "string \<Rightarrow> nat \<Rightarrow> int" where
  "last_newline_upto s k =
     (case filter (\<lambda>j. s ! j = newline) (rev [0..<min (Suc k) (length s)]) of
        [] \<Rightarrow> - 1
      | j # _ \<Rightarrow> int j)"

text \<open>findSourceInUrls: the first of the urls whose text matches, with line and column.\<close>

fun findSourceInUrls ::
  "env \<Rightarrow> config \<Rightarrow> cache \<Rightarrow> regex \<Rightarrow> string list \<Rightarrow> (string \<times> int \<times> int) option \<times> cache" where
  "findSourceInUrls e cfg c re [] = (None, c)"
| "findSourceInUrls e cfg c re (u # us) =
     (let (source, c1) = getSource e cfg c (Str u) in
      if source \<noteq> [] then
        (let joined = join_with [newline] source in
         case re_exec e re joined of
           Some m \<Rightarrow>
             (Some (u, int (length (split_on newline (take (m_index m) joined))),
                    int (m_index m) - last_newline_upto joined (m_index m) - 1), c1)
         | None \<Rightarrow> findSourceInUrls e cfg c1 re us)
      else findSourceInUrls e cfg c1 re us)"

text \<open>\<open>s.replace(p, r)\<close> for a string pattern: the first occurrence only.\<close>

definition replace_first :: "string \<Rightarrow> string \<Rightarrow> string \<Rightarrow> string" where
  "replace_first p r s =
     (case index_of p s of
        None \<Rightarrow> s
      | Some k \<Rightarrow> take k s @ r @ drop (k + length p) s)"

text \<open>\<open>s.replace(/\s+/g, '\\s+')\<close>: every run of whitespace becomes the pattern for one.\<close>

function collapse_space :: "string \<Rightarrow> string" where
  "collapse_space [] = []"
| "collapse_space (x # xs) =
     (if is_space x then [backslash, CHR ''s'', CHR ''+''] @ collapse_space (dropWhile is_space xs)
      else x # collapse_space xs)"
  by pat_completeness auto
termination
  by (relation "measure length") (auto simp: less_Suc_eq_le length_dropWhile_le)

definition escapeCodeAsRegExpForMatchingInsideHTML :: "string \<Rightarrow> string" where
  "escapeCodeAsRegExpForMatchingInsideHTML body =
     collapse_space
       (replace_first [CHR 0x22] (''(?:'' @ [CHR 0x22] @ ''|&quot;)'')
         (replace_first ''&'' ''(?:&|&amp;)''
           (replace_first ''>'' ''(?:>|&gt;)''
             (replace_first ''<'' ''(?:<|&lt;)'' (escapeRegExp body)))))"

text \<open>
  A function of the call chain: whether it is computeStackTrace itself, its
  \<open>__name__\<close> property, its \<open>name\<close> and its text (\<open>toString()\<close>).
\<close>

record fn =
  fn_is_computeStackTrace :: bool
  fn_dunder_name :: jsval
  fn_name :: string
  fn_code :: string

text \<open>
  findSourceByFunctionBody. The second search of an event handler passes the string
  \<open>urls[0]\<close> where a list is expected, so it walks the address character by character.
\<close>

definition findSourceByFunctionBody ::
  "env \<Rightarrow> config \<Rightarrow> cache \<Rightarrow> fn \<Rightarrow> (string \<times> int \<times> int) option \<times> cache" where
  "findSourceByFunctionBody e cfg c func =
     (let urls = location_href e # map s_src (filter (\<lambda>sc. s_src sc \<noteq> []) (scripts e));
          code = fn_code func;
          re =
            (case re_exec e ReCode code of
               None \<Rightarrow> RegExp (collapse_space (escapeRegExp code)) []
             | Some parts \<Rightarrow>
                 (let name = (if truthy (grp parts 1) then [backslash] @ ''s+'' @ to_string (grp parts 1) else []);
                      args = join_with ([backslash] @ ''s*,'' @ [backslash] @ ''s*'') (split_comma (grp parts 2));
                      esc = escapeRegExp (to_string (grp parts 3));
                      body = (if esc \<noteq> [] \<and> last esc = CHR '';'' then esc @ ''?'' else esc)
                  in RegExp (''function'' @ name @ [backslash] @ ''s*'' @ [backslash] @ ''('' @ [backslash] @ ''s*''
                             @ args @ [backslash] @ ''s*'' @ [backslash] @ '')'' @ [backslash] @ ''s*{''
                             @ [backslash] @ ''s*'' @ body @ [backslash] @ ''s*}'') []))
      in case findSourceInUrls e cfg c re urls of
           (Some r, c1) \<Rightarrow> (Some r, c1)
         | (None, c1) \<Rightarrow>
             (case re_exec e ReEvent code of
                None \<Rightarrow> (None, c1)
              | Some parts \<Rightarrow>
                  (let event = to_string (grp parts 1);
                       body = escapeCodeAsRegExpForMatchingInsideHTML (to_string (grp parts 2));
                       quote = ''['' @ [backslash, CHR 0x27, CHR 0x22] @ '']'';
                       re1 = RegExp (''on'' @ event @ ''='' @ quote @ [backslash] @ ''s*'' @ body
                                     @ [backslash] @ ''s*'' @ quote) ''i''
                   in case findSourceInUrls e cfg c1 re1 (map (\<lambda>ch. [ch]) (location_href e)) of
                        (Some r, c2) \<Rightarrow> (Some r, c2)
                      | (None, c2) \<Rightarrow> findSourceInUrls e cfg c2 (RegExp body []) urls)))"

section \<open>Strategy: the multi-line message\<close>

text \<open>\<open>href.replace(/#.*$/, '')\<close> for an address, which has no line break.\<close>

definition strip_fragment :: "string \<Rightarrow> string" where
  "strip_fragment s = takeWhile (\<lambda>ch. ch \<noteq> CHR ''#'') s"

text \<open>
  The frame a location line gives, before name and context: \<open>nxt\<close> is \<open>lines[line + 1]\<close>.
  For lineRE3 the excerpt is escaped into a pattern, which throws on \<open>undefined\<close>.
\<close>

definition multiline_item ::
  "env \<Rightarrow> config \<Rightarrow> script list \<Rightarrow> cache \<Rightarrow> string \<Rightarrow> jsval \<Rightarrow> (exn + frame option) \<times> cache" where
  "multiline_item e cfg inlineScriptBlocks c l nxt =
     (case re_exec e ReLine1 l of
        Some parts \<Rightarrow>
          (Inr (Some \<lparr>f_url = grp parts 2, f_func = grp parts 3, f_args = Some [],
                      f_line = to_number (grp parts 1), f_column = Null, f_context = None\<rparr>), c)
      | None \<Rightarrow>
          (case re_exec e ReLine2 l of
             Some parts \<Rightarrow>
               (let item = \<lparr>f_url = grp parts 3, f_func = grp parts 4, f_args = Some [],
                            f_line = to_number (grp parts 1), f_column = Null, f_context = None\<rparr>;
                    relativeLine = to_number (grp parts 1)
                in case js_minus (grp parts 2) (Num 1) of
                     Num k \<Rightarrow>
                       (if 0 \<le> k \<and> nat k < length inlineScriptBlocks then
                          (let (source, c1) = getSource e cfg c (f_url item);
                               joined = join_with [newline] source
                           in case index_of (s_innerText (inlineScriptBlocks ! nat k)) joined of
                                Some pos \<Rightarrow>
                                  (Inr (Some (item\<lparr>f_line :=
                                       js_plus relativeLine
                                         (Num (int (length (split_on newline (take pos joined)))))\<rparr>)), c1)
                              | None \<Rightarrow> (Inr (Some item), c1))
                        else (Inr (Some item), c))
                   | _ \<Rightarrow> (Inr (Some item), c))
           | None \<Rightarrow>
               (case re_exec e ReLine3 l of
                  Some parts \<Rightarrow>
                    (case nxt of
                       Str excerpt \<Rightarrow>
                         (let url = strip_fragment (location_href e);
                              re = RegExp (escapeCodeAsRegExpForMatchingInsideHTML excerpt) [];
                              (src, c1) = findSourceInUrls e cfg c re [url]
                          in (Inr (Some \<lparr>f_url = Str url, f_func = Str [], f_args = Some [],
                                         f_line = (case src of Some (u, ln, col) \<Rightarrow> Num ln
                                                   | None \<Rightarrow> grp parts 1),
                                         f_column = Null, f_context = None\<rparr>), c1))
                     | _ \<Rightarrow> (Inl TypeError, c))
                | None \<Rightarrow> (Inr None, c))))"

text \<open>
  The cross-check of the context against the excerpt; comparing calls \<open>replace\<close> on
  \<open>lines[line + 1]\<close>, which throws when a context was found and the excerpt is missing.
\<close>

definition multiline_fill ::
  "env \<Rightarrow> config \<Rightarrow> cache \<Rightarrow> jsval \<Rightarrow> frame \<Rightarrow> (exn + frame) \<times> cache" where
  "multiline_fill e cfg c nxt item =
     (let (item1, c1) =
            (if \<not> truthy (f_func item) then
               (let (fn, c') = guessFunctionName e cfg c (f_url item) (f_line item)
                in (item\<lparr>f_func := fn\<rparr>, c'))
             else (item, c));
          (context, c2) = gatherContext e cfg c1 (f_url item1) (f_line item1)
      in case context of
           None \<Rightarrow> (Inr (item1\<lparr>f_context := Some [nxt]\<rparr>), c2)
         | Some ctx \<Rightarrow>
             (case nxt of
                Str excerpt \<Rightarrow>
                  (if strip_leading_space (to_string (ctx ! (length ctx div 2)))
                      = strip_leading_space excerpt
                   then (Inr (item1\<lparr>f_context := Some ctx\<rparr>), c2)
                   else (Inr (item1\<lparr>f_context := Some [nxt]\<rparr>), c2))
              | _ \<Rightarrow> (Inl TypeError, c2)))"

text \<open>\<open>for (let line = 2; line < lines.length; line += 2)\<close>, from \<open>lines[2]\<close> on.\<close>

fun multiline_loop ::
  "env \<Rightarrow> config \<Rightarrow> script list \<Rightarrow> string list \<Rightarrow> cache \<Rightarrow> (exn + frame list) \<times> cache" where
  "multiline_loop e cfg inl [] c = (Inr [], c)"
| "multiline_loop e cfg inl (l # ls) c =
     (let nxt = (case ls of [] \<Rightarrow> Undefined | n # _ \<Rightarrow> Str n) in
      case multiline_item e cfg inl c l nxt of
        (Inl x, c1) \<Rightarrow> (Inl x, c1)
      | (Inr None, c1) \<Rightarrow> multiline_loop e cfg inl (drop 1 ls) c1
      | (Inr (Some item), c1) \<Rightarrow>
          (case multiline_fill e cfg c1 nxt item of
             (Inl x, c2) \<Rightarrow> (Inl x, c2)
           | (Inr item', c2) \<Rightarrow>
               (case multiline_loop e cfg inl (drop 1 ls) c2 of
                  (Inl x, c3) \<Rightarrow> (Inl x, c3)
                | (Inr rest, c3) \<Rightarrow> (Inr (item' # rest), c3))))"

text \<open>
  computeStackTraceFromOperaMultiLineMessage. A message that is no string has no
  \<open>split\<close> to call.
\<close>

definition computeStackTraceFromOperaMultiLineMessage ::
  "env \<Rightarrow> config \<Rightarrow> cache \<Rightarrow> jsval \<Rightarrow> (exn + trace option) \<times> cache" where
  "computeStackTraceFromOperaMultiLineMessage e cfg c ex =
     (if \<not> readable ex then (Inl TypeError, c)
      else
        (case get_prop e ex ''message'' of
           Str msg \<Rightarrow>
             (let lines = split_on newline msg in
              if length lines < 4 then (Inr None, c)
              else
                (let inlineScriptBlocks = filter (\<lambda>sc. s_src sc = []) (scripts e) in
                 case multiline_loop e cfg inlineScriptBlocks (drop 2 lines) c of
                   (Inl x, c1) \<Rightarrow> (Inl x, c1)
                 | (Inr [], c1) \<Rightarrow> (Inr None, c1)
                 | (Inr (fr0 # rest), c1) \<Rightarrow>
                     (Inr (Some \<lparr>t_name = get_prop e ex ''name'', t_message = js_index lines (Num 0),
                                 t_mode = ''multiline'', t_stack = Some (fr0 # rest),
                                 t_incomplete = None, t_partial = None\<rparr>), c1)))
         | _ \<Rightarrow> (Inl TypeError, c)))"

section \<open>Strategy: walking the caller chain\<close>

text \<open>
  The body of the walk for one function \<open>cur\<close> that is not skipped: the frame it
  pushes. Reading \<open>ex.message\<close> throws when \<open>ex\<close> is not readable.
\<close>

definition walk_item ::
  "env \<Rightarrow> config \<Rightarrow> cache \<Rightarrow> jsval \<Rightarrow> fn \<Rightarrow> (exn + frame) \<times> cache" where
  "walk_item e cfg c ex cur =
     (let parts = (if fn_name cur \<noteq> [] then None else re_exec e ReFunctionName (fn_code cur));
          func0 =
            (if fn_name cur \<noteq> [] then Str (fn_name cur)
             else (case parts of Some m \<Rightarrow> grp m 1 | None \<Rightarrow> Str UNKNOWN_FUNCTION));
          func1 =
            (if func0 = Undefined then
               Str (take (case index_of ''{'' (fn_code cur) of Some k \<Rightarrow> k | None \<Rightarrow> 0) (fn_code cur))
             else func0);
          item = \<lparr>f_url = Null, f_func = func1, f_args = Some [], f_line = Null,
                   f_column = Null, f_context = None\<rparr>
      in case findSourceByFunctionBody e cfg c cur of
           (None, c1) \<Rightarrow> (Inr item, c1)
         | (Some (u, ln, col), c1) \<Rightarrow>
             (let (func2, c2) =
                    (if strict_eq func1 (Str UNKNOWN_FUNCTION)
                     then guessFunctionName e cfg c1 (Str u) (Num ln)
                     else (func1, c1));
                  item1 = item\<lparr>f_url := Str u, f_line := Num ln, f_func := func2\<rparr>
              in if \<not> readable ex then (Inl TypeError, c2)
                 else
                   (case re_exec e ReQuotedName
                           (to_string (js_or (get_prop e ex ''message'') (get_prop e ex ''description''))) of
                      None \<Rightarrow> (Inr item1, c2)
                    | Some rm \<Rightarrow>
                        (let (col', c3) = findSourceInLine e cfg c2 (grp rm 1) (Str u) (Num ln)
                         in (Inr (item1\<lparr>f_column := col'\<rparr>), c3)))))"

text \<open>
  The loop over the chain: \<open>seen\<close> holds the texts of the functions met (\<open>funcs\<close>). A
  skipped function (computeStackTrace itself, and the one whose \<open>__name__\<close> is
  reportFuncName) is passed over; a function met twice is still pushed and ends the
  walk.
\<close>

fun walk ::
  "env \<Rightarrow> config \<Rightarrow> jsval \<Rightarrow> string list \<Rightarrow> fn list \<Rightarrow> cache \<Rightarrow> (exn + frame list) \<times> cache" where
  "walk e cfg ex seen [] c = (Inr [], c)"
| "walk e cfg ex seen (cur # callers) c =
     (if fn_is_computeStackTrace cur \<or> strict_eq (fn_dunder_name cur) (Str (reportFuncName cfg))
      then walk e cfg ex seen callers c
      else
        (case walk_item e cfg c ex cur of
           (Inl x, c1) \<Rightarrow> (Inl x, c1)
         | (Inr item, c1) \<Rightarrow>
             (if fn_code cur \<in> set seen then (Inr [item], c1)
              else
                (case walk e cfg ex (fn_code cur # seen) callers c1 of
                   (Inl x, c2) \<Rightarrow> (Inl x, c2)
                 | (Inr rest, c2) \<Rightarrow> (Inr (item # rest), c2)))))"

text \<open>\<open>if (depth) stack.splice(0, depth)\<close>\<close>

definition splice_head :: "jsval \<Rightarrow> frame list \<Rightarrow> frame list" where
  "splice_head depth st =
     (if truthy depth then (case to_number depth of Num d \<Rightarrow> drop (nat d) st | _ \<Rightarrow> st) else st)"

text \<open>
  computeStackTraceByWalkingCallerChain. \<open>callers\<close> is what the walk reads from
  \<open>computeStackTraceByWalkingCallerChain.caller\<close> on, following \<open>.caller\<close> until it is
  \<open>null\<close>; it is \<open>None\<close> where reading \<open>.caller\<close> throws, as it does on a function of
  strict code (every ES module, and the bundle under dist/, is strict). The trace it
  builds is then augmented from the error's own location fields.
\<close>

definition computeStackTraceByWalkingCallerChain ::
  "env \<Rightarrow> config \<Rightarrow> fn list option \<Rightarrow> cache \<Rightarrow> jsval \<Rightarrow> jsval \<Rightarrow> (exn + trace option) \<times> cache" where
  "computeStackTraceByWalkingCallerChain e cfg callers c ex depth =
     (case callers of
        None \<Rightarrow> (Inl TypeError, c)
      | Some chain \<Rightarrow>
          (case walk e cfg ex [] chain c of
             (Inl x, c1) \<Rightarrow> (Inl x, c1)
           | (Inr st, c1) \<Rightarrow>
               (if \<not> readable ex then (Inl TypeError, c1)
                else
                  (let result = \<lparr>t_name = get_prop e ex ''name'', t_message = get_prop e ex ''message'',
                                  t_mode = ''callers'', t_stack = Some (splice_head depth st),
                                  t_incomplete = None, t_partial = None\<rparr>
                   in case augmentStackTraceWithInitialElement e cfg c1 result
                             (js_or (get_prop e ex ''sourceURL'') (get_prop e ex ''fileName''))
                             (js_or (get_prop e ex ''line'') (get_prop e ex ''lineNumber''))
                             (js_or (get_prop e ex ''message'') (get_prop e ex ''description'')) of
                        (Inl x, result', c2) \<Rightarrow> (Inl x, c2)
                      | (Inr b, result', c2) \<Rightarrow> (Inr (Some result'), c2)))))"

section \<open>computeStackTrace\<close>

text \<open>
  One \<open>try\<close> block of computeStackTrace: \<open>r\<close> is what the strategy did, \<open>k\<close> the rest of
  the function. A truthy result is returned; an exception is rethrown when \<open>debug\<close> is
  set and dropped otherwise.
\<close>

definition attempt ::
  "config \<Rightarrow> (exn + trace option) \<times> cache \<Rightarrow> (cache \<Rightarrow> (exn + trace) \<times> cache) \<Rightarrow> (exn + trace) \<times> cache" where
  "attempt cfg r k =
     (case r of
        (Inr (Some t), c1) \<Rightarrow> (Inr t, c1)
      | (Inr None, c1) \<Rightarrow> k c1
      | (Inl x, c1) \<Rightarrow> (if debug cfg then (Inl x, c1) else k c1))"

text \<open>The last statement: an object with \<open>name\<close>, \<open>message\<close> and \<open>mode\<close>, and no \<open>stack\<close>.\<close>

definition failed_trace :: "env \<Rightarrow> jsval \<Rightarrow> trace" where
  "failed_trace e ex =
     \<lparr>t_name = get_prop e ex ''name'', t_message = get_prop e ex ''message'', t_mode = ''failed'',
      t_stack = None, t_incomplete = None, t_partial = None\<rparr>"

text \<open>\<open>depth == null ? 0 : +depth\<close>\<close>

definition norm_depth :: "jsval \<Rightarrow> jsval" where
  "norm_depth depth = (if depth = Undefined \<or> depth = Null then Num 0 else to_number depth)"

definition computeStackTrace ::
  "env \<Rightarrow> config \<Rightarrow> fn list option \<Rightarrow> cache \<Rightarrow> jsval \<Rightarrow> jsval \<Rightarrow> (exn + trace) \<times> cache" where
  "computeStackTrace e cfg callers c ex depth =
     attempt cfg (computeStackTraceFromStacktraceProp e cfg c ex) (\<lambda>c1.
     attempt cfg (computeStackTraceFromStackProp e cfg c1 ex) (\<lambda>c2.
     attempt cfg (computeStackTraceFromOperaMultiLineMessage e cfg c2 ex) (\<lambda>c3.
     attempt cfg (computeStackTraceByWalkingCallerChain e cfg callers c3 ex
                    (js_plus (norm_depth depth) (Num 1))) (\<lambda>c4.
     if readable ex then (Inr (failed_trace e ex), c4) else (Inl TypeError, c4)))))"

section \<open>The report protocol (report.js)\<close>

text \<open>
  A subscriber is called with the trace (or \<open>null\<close>), the flag \<open>isWindowError\<close> and the
  raised value; it returns (\<open>None\<close>) or throws a value (\<open>Some v\<close>). Subscribers are taken
  not to call back into the library.
\<close>

type_synonym handler = "trace option \<Rightarrow> bool \<Rightarrow> jsval \<Rightarrow> jsval option"

text \<open>One call of a subscriber: its position in \<open>handlers\<close> and the three arguments.\<close>

type_synonym delivery = "nat \<times> trace option \<times> bool \<times> jsval"

text \<open>
  The module's variables: \<open>handlers\<close>, \<open>lastException\<close>, \<open>lastExceptionStack\<close>, the source
  cache; the callbacks handed to \<open>setTimeout\<close> and not yet run, each with the error it
  closes over and its delay; and, for the properties, the subscriber calls made so far.
\<close>

record rstate =
  handlers :: "handler list"
  lastException :: jsval
  lastExceptionStack :: "trace option"
  timers :: "(jsval \<times> nat) list"
  sourceCache :: cache
  calls :: "delivery list"

text \<open>
  The loop of notifyHandlers over the handlers in index order: \<open>exc\<close> is the variable
  \<open>exception\<close>, overwritten by each value caught.
\<close>

fun notify_loop ::
  "handler list \<Rightarrow> nat \<Rightarrow> trace option \<Rightarrow> bool \<Rightarrow> jsval \<Rightarrow> jsval \<Rightarrow> jsval \<times> delivery list" where
  "notify_loop [] i st w err exc = (exc, [])"
| "notify_loop (h # hs) i st w err exc =
     (let exc' = (case h st w err of Some inner \<Rightarrow> inner | None \<Rightarrow> exc);
          (r, log) = notify_loop hs (Suc i) st w err exc'
      in (r, (i, st, w, err) # log))"

text \<open>notifyHandlers: \<open>exception\<close> starts as \<open>null\<close> and is thrown at the end if truthy.\<close>

definition notifyHandlers ::
  "config \<Rightarrow> handler list \<Rightarrow> trace option \<Rightarrow> bool \<Rightarrow> jsval \<Rightarrow> (exn + unit) \<times> delivery list" where
  "notifyHandlers cfg hs st isWindowError err =
     (if isWindowError \<and> \<not> collectWindowErrors cfg then (Inr (), [])
      else
        (let (exception, log) = notify_loop hs 0 st isWindowError err Null
         in (if truthy exception then Inl (Raised exception) else Inr (), log)))"

definition processLastException :: "config \<Rightarrow> rstate \<Rightarrow> (exn + unit) \<times> rstate" where
  "processLastException cfg s =
     (let lastExceptionStack' = lastExceptionStack s;
          lastException' = lastException s;
          s1 = s\<lparr>lastExceptionStack := None, lastException := Null\<rparr>;
          (r, log) = notifyHandlers cfg (handlers s1) lastExceptionStack' False lastException'
      in (r, s1\<lparr>calls := calls s1 @ log\<rparr>))"

text \<open>
  report. \<open>Inr ()\<close> is a normal return, \<open>Inl (Raised ex)\<close> the \<open>throw ex\<close> of the last
  line. \<open>callers\<close> is the call chain the trace computation would walk.
\<close>

definition report ::
  "env \<Rightarrow> config \<Rightarrow> fn list option \<Rightarrow> rstate \<Rightarrow> jsval \<Rightarrow> (exn + unit) \<times> rstate" where
  "report e cfg callers s ex =
     (if lastExceptionStack s \<noteq> None \<and> strict_eq (lastException s) ex then (Inr (), s)
      else
        (case (if lastExceptionStack s \<noteq> None then processLastException cfg s else (Inr (), s)) of
           (Inl x, s0) \<Rightarrow> (Inl x, s0)
         | (Inr u, s0) \<Rightarrow>
             (case computeStackTrace e cfg callers (sourceCache s0) ex Undefined of
                (Inl x, c') \<Rightarrow> (Inl x, s0\<lparr>sourceCache := c'\<rparr>)
              | (Inr stack, c') \<Rightarrow>
                  (Inl (Raised ex),
                   s0\<lparr>sourceCache := c', lastExceptionStack := Some stack, lastException := ex,
                      timers := timers s0 @ [(ex, if t_incomplete stack = Some True then 2000 else 0)]\<rparr>))))"

text \<open>The callback report hands to \<open>setTimeout\<close>, closed over \<open>ex\<close>.\<close>

definition timer_fire :: "config \<Rightarrow> rstate \<Rightarrow> jsval \<Rightarrow> (exn + unit) \<times> rstate" where
  "timer_fire cfg s ex =
     (if strict_eq (lastException s) ex then processLastException cfg s else (Inr (), s))"

text \<open>
  The pending callbacks run to the end, the shorter delay first and at equal delays
  the one set first; what a callback throws does not reach the others.
\<close>

fun fire_all :: "config \<Rightarrow> (jsval \<times> nat) list \<Rightarrow> rstate \<Rightarrow> rstate" where
  "fire_all cfg [] s = s"
| "fire_all cfg ((ex, d) # ts) s = fire_all cfg ts (snd (timer_fire cfg s ex))"

definition run_timers :: "config \<Rightarrow> rstate \<Rightarrow> rstate" where
  "run_timers cfg s = fire_all cfg (sort_key snd (timers s)) (s\<lparr>timers := []\<rparr>)"

section \<open>Notions for stating the properties of the protocol\<close>

text \<open>One dispatch to \<open>n\<close> subscribers: each is called once, in order, with the same arguments.\<close>

definition deliveries :: "nat \<Rightarrow> trace option \<Rightarrow> bool \<Rightarrow> jsval \<Rightarrow> delivery list" where
  "deliveries n st w err = map (\<lambda>k. (k, st, w, err)) [0..<n]"

text \<open>The value the last subscriber that throws has thrown, if one throws.\<close>

definition last_thrown :: "handler list \<Rightarrow> trace option \<Rightarrow> bool \<Rightarrow> jsval \<Rightarrow> jsval option" where
  "last_thrown hs st w err =
     (case List.map_filter (\<lambda>h. h st w err) hs of [] \<Rightarrow> None | vs \<Rightarrow> Some (last vs))"

text \<open>The module as it is loaded, with the given subscribers: nothing pending.\<close>

definition idle_state :: "handler list \<Rightarrow> rstate" where
  "idle_state hs =
     \<lparr>handlers = hs, lastException = Null, lastExceptionStack = None, timers = [],
      sourceCache = Map.empty, calls = []\<rparr>"

text \<open>
  The flush in the order the specification words it, to compare with the code's:
  deliver to the subscribers, then clear the slot. An exception that leaves the
  delivery skips the statements after it.
\<close>

definition spec_flush_deliver_then_clear :: "config \<Rightarrow> rstate \<Rightarrow> (exn + unit) \<times> rstate" where
  "spec_flush_deliver_then_clear cfg s =
     (let (r, log) = notifyHandlers cfg (handlers s) (lastExceptionStack s) False (lastException s);
          s1 = s\<lparr>calls := calls s @ log\<rparr>
      in case r of
           Inl x \<Rightarrow> (Inl x, s1)
         | Inr u \<Rightarrow> (Inr u, s1\<lparr>lastExceptionStack := None, lastException := Null\<rparr>))"

text \<open>
  The orchestration in the order the specification words it, to compare with the
  code's: the stack property first, then the stacktrace property, the multi-line
  message and the caller walk.
\<close>

definition spec_order_native_first ::
  "env \<Rightarrow> config \<Rightarrow> fn list option \<Rightarrow> cache \<Rightarrow> jsval \<Rightarrow> jsval \<Rightarrow> (exn + trace) \<times> cache" where
  "spec_order_native_first e cfg callers c ex depth =
     attempt cfg (computeStackTraceFromStackProp e cfg c ex) (\<lambda>c1.
     attempt cfg (computeStackTraceFromStacktraceProp e cfg c1 ex) (\<lambda>c2.
     attempt cfg (computeStackTraceFromOperaMultiLineMessage e cfg c2 ex) (\<lambda>c3.
     attempt cfg (computeStackTraceByWalkingCallerChain e cfg callers c3 ex
                    (js_plus (norm_depth depth) (Num 1))) (\<lambda>c4.
     if readable ex then (Inr (failed_trace e ex), c4) else (Inl TypeError, c4)))))"

text \<open>
  "The first strategy of a list that yields a trace": each is run on the cache the
  ones before it left; one that throws or returns nothing lets the next one try.
\<close>

fun first_result ::
  "(cache \<Rightarrow> (exn + trace option) \<times> cache) list \<Rightarrow> cache \<Rightarrow> trace option \<times> cache" where
  "first_result [] c = (None, c)"
| "first_result (strategy # rest) c =
     (case strategy c of
        (Inr (Some t), c1) \<Rightarrow> (Some t, c1)
      | (Inr None, c1) \<Rightarrow> first_result rest c1
      | (Inl x, c1) \<Rightarrow> first_result rest c1)"

section \<open>Reachable caches\<close>

text \<open>
  The cache starts empty and getSource is the only function that writes it.
\<close>

inductive cache_reachable :: "env \<Rightarrow> config \<Rightarrow> cache \<Rightarrow> bool" for e :: env and cfg :: config where
  start: "cache_reachable e cfg Map.empty"
| step: "cache_reachable e cfg c \<Longrightarrow> cache_reachable e cfg (snd (getSource e cfg c url))"

section \<open>A host for the examples\<close>

text \<open>
  A page at \<open>http://a.com/index.html\<close> with one script, \<open>http://a.com/x.js\<close>, of twelve
  lines. Its \<open>re_exec\<close> answers as a browser does on the strings the examples pass and
  finds no match elsewhere: the addresses of the script and of the page against the
  pattern of getSource, a stack line of the form Chrome prints against \<open>chrome\<close> and
  \<open>winjs\<close> (which both match it), and a stacktrace line of the form Opera 11 prints
  against \<open>opera11Regex\<close>.
\<close>

definition demo_url :: string where
  "demo_url = ''http://a.com/x.js''"

definition demo_lines :: "string list" where
  "demo_lines = [''l1'', ''l2'', ''l3'', ''l4'', ''l5'', ''l6'', ''l7'', ''l8'', ''l9'', ''l10'', ''l11'', ''l12'']"

definition demo_stack_line :: string where
  "demo_stack_line = ''    at f (http://a.com/x.js:3:7)''"

definition demo_stacktrace_line :: string where
  "demo_stacktrace_line = ''Error thrown at line 3, column 7 in f() in http://a.com/x.js:''"

definition demo_re_exec :: "regex \<Rightarrow> string \<Rightarrow> rmatch option" where
  "demo_re_exec re s =
     (if re = ReUrlParts \<and> s = demo_url then
        Some \<lparr>m_index = 0, m_groups = [Some demo_url, Some ''http'', Some ''a.com'', Some [], Some ''x.js'']\<rparr>
      else if re = ReUrlParts \<and> s = ''http://a.com/index.html'' then
        Some \<lparr>m_index = 0,
              m_groups = [Some ''http://a.com/index.html'', Some ''http'', Some ''a.com'', Some [],
                          Some ''index.html'']\<rparr>
      else if (re = ReChrome \<or> re = ReWinjs) \<and> s = demo_stack_line then
        Some \<lparr>m_index = 0, m_groups = [Some demo_stack_line, Some ''f'', Some demo_url, Some ''3'', Some ''7'']\<rparr>
      else if re = ReOpera11 \<and> s = demo_stacktrace_line then
        Some \<lparr>m_index = 15,
              m_groups = [Some '' line 3, column 7 in f() in http://a.com/x.js:'', Some ''3'', Some ''7'',
                          None, Some ''f'', Some [], Some demo_url]\<rparr>
      else None)"

text \<open>
  Three raised values: object 7 is an error that carries both a \<open>stack\<close> and a
  \<open>stacktrace\<close>, object 8 an error with a name and a message only, object 9 a
  subscriber's own exception.
\<close>

definition demo_obj_get :: "nat \<Rightarrow> string \<Rightarrow> jsval" where
  "demo_obj_get r p =
     (if r = 7 \<and> p = ''stack'' then Str (''Error: boom'' @ [newline] @ demo_stack_line)
      else if r = 7 \<and> p = ''stacktrace'' then Str (demo_stacktrace_line @ [newline] @ ''    throw e;'')
      else if (r = 7 \<or> r = 8) \<and> p = ''message'' then Str ''boom''
      else if (r = 7 \<or> r = 8) \<and> p = ''name'' then Str ''Error''
      else Undefined)"

definition demo_env :: env where
  "demo_env =
     \<lparr>re_exec = demo_re_exec, document_domain = Some ''a.com'',
      xhr_get = (\<lambda>u. if u = demo_url then Some (join_with [newline] demo_lines) else None),
      obj_get = demo_obj_get, scripts = [\<lparr>s_src = demo_url, s_innerText = []\<rparr>],
      location_href = ''http://a.com/index.html''\<rparr>"

text \<open>Subscribers: one that returns, one that throws object 9, one that throws \<open>null\<close>.\<close>

definition quiet_handler :: handler where
  "quiet_handler st w err = None"

definition throwing_handler :: handler where
  "throwing_handler st w err = Some (Obj 9)"

definition null_throwing_handler :: handler where
  "null_throwing_handler st w err = Some Null"

text \<open>
  Traces as the caller walk leaves them for an error without location fields
  (\<open>incomplete\<close> set), over a given list of frames; and two frames of the script: one
  with its line, one without a line and with an unknown function.
\<close>

definition demo_trace :: "frame list \<Rightarrow> trace" where
  "demo_trace fs =
     \<lparr>t_name = Str ''Error'', t_message = Str ''boom'', t_mode = ''callers'', t_stack = Some fs,
      t_incomplete = Some True, t_partial = None\<rparr>"

definition demo_frame :: frame where
  "demo_frame =
     \<lparr>f_url = Str demo_url, f_func = Str ''f'', f_args = Some [], f_line = Num 3, f_column = Null,
      f_context = None\<rparr>"

definition demo_frame_no_line :: frame where
  "demo_frame_no_line =
     \<lparr>f_url = Str demo_url, f_func = Str ''?'', f_args = Some [], f_line = Null, f_column = Null,
      f_context = None\<rparr>"

text \<open>The trace of object 7, as the stacktrace strategy builds it on this host.\<close>

definition demo_stacktrace_trace :: trace where
  "demo_stacktrace_trace =
     \<lparr>t_name = Str ''Error'', t_message = Str ''boom'', t_mode = ''stacktrace'',
      t_stack = Some [\<lparr>f_url = Str ''http://a.com/x.js'', f_func = Str ''f'', f_args = Some [],
                       f_line = Num 3, f_column = Num 7,
                       f_context = Some [Str ''    throw e;'']\<rparr>],
      t_incomplete = None, t_partial = None\<rparr>"

section \<open>Properties\<close>

subsection \<open>The context window\<close>

lemma window_map:
  "0 \<le> a \<Longrightarrow> b \<le> int (length xs) \<Longrightarrow>
   map (\<lambda>i. js_index xs (Num i)) [a..b - 1] = map Str (take (nat (b - a)) (drop (nat a) xs))"
proof (induction "nat (b - a)" arbitrary: a)
  case 0
  then have "b - 1 < a" by simp
  then show ?case using 0 by simp
next
  case (Suc m)
  then have lt: "a < b" and m: "m = nat (b - (a + 1))" by linarith+
  have inr: "nat a < length xs" using Suc.prems lt by linarith
  have step: "[a..b - 1] = a # [a + 1..b - 1]" using lt by (simp add: upto_rec1)
  have ih: "map (\<lambda>i. js_index xs (Num i)) [a + 1..b - 1]
            = map Str (take (nat (b - (a + 1))) (drop (nat (a + 1)) xs))"
    using Suc.hyps(1)[OF m] Suc.prems by simp
  have n1: "nat (b - a) = Suc (nat (b - (a + 1)))" using lt by linarith
  have n2: "nat (a + 1) = Suc (nat a)" using Suc.prems by linarith
  show ?case
    unfolding step n1 using ih inr Suc.prems(1)
    by (simp add: n2 Cons_nth_drop_Suc[symmetric])
qed

lemma filter_defined_Str: "filter (\<lambda>v. v \<noteq> Undefined) (map Str ys) = map Str ys"
  by (induction ys) auto

lemma gatherContext_Num:
  assumes loc: "linesOfContext cfg = 11"
    and src: "getSource e cfg c url = (source, c')"
  shows "gatherContext e cfg c url (Num n) =
    (let s = max 0 (n - 6); t = min (int (length source)) (n + 5);
         w = map Str (take (nat (t - s)) (drop (nat s) source))
     in (if w = [] then None else Some w, c'))"
proof (cases "source = []")
  case True
  then show ?thesis using src by (simp add: gatherContext_def Let_def)
next
  case False
  define s where "s = max 0 (n - 6)"
  define t where "t = min (int (length source)) (n + 5)"
  have s0: "0 \<le> s" and tl: "t \<le> int (length source)" by (simp_all add: s_def t_def)
  have a: "(11::int) div 2 = 5" "(11::int) smod 2 = 1" by (simp_all add: smod_int_alt_def)
  have st: "math_max (Num 0) (js_minus (js_minus (Num n) (Num 5)) (Num 1)) = Num s"
    by (simp add: math_max_def js_minus_def s_def)
  have en: "math_min (Num (int (length source))) (js_minus (js_plus (Num n) (Num 6)) (Num 1)) = Num t"
    by (simp add: math_min_def js_minus_def js_plus_def t_def)
  show ?thesis
    using False src window_map[OF s0 tl]
    by (simp add: gatherContext_def Let_def loc a st en filter_defined_Str s_def[symmetric] t_def[symmetric])
qed

lemma gatherContext_Num_fst:
  assumes loc: "linesOfContext cfg = 11"
    and src: "getSource e cfg c url = (source, c')"
    and w: "w = map Str (take (nat (min (int (length source)) (n + 5) - max 0 (n - 6)))
                            (drop (nat (max 0 (n - 6))) source))"
  shows "fst (gatherContext e cfg c url (Num n)) = (if w = [] then None else Some w)"
  unfolding w by (simp add: gatherContext_Num[OF loc src] Let_def)

text \<open>
  C8. With \<open>linesOfContext = 11\<close>, and \<open>source\<close> the lines getSource gives for the url:
  for a line number \<open>n\<close> with at least five lines before it and five after it,
  gatherContext returns exactly eleven lines, lines \<open>n - 5\<close> to \<open>n + 5\<close>, the target line
  sixth; for a line number of the file below 6 it returns fewer than eleven lines, the
  file's first \<open>n + 5\<close>, with the target line among them; and it returns \<open>null\<close> when the
  file has no line or the clipped window is empty.
\<close>

theorem gatherContext_window:
  assumes loc: "linesOfContext cfg = 11"
    and src: "getSource e cfg c url = (source, c')"
  shows "(6 \<le> n \<and> n + 5 \<le> int (length source) \<longrightarrow>
            (\<exists>w. fst (gatherContext e cfg c url (Num n)) = Some w \<and> length w = 11
                 \<and> w = map Str (take 11 (drop (nat (n - 6)) source))
                 \<and> w ! 5 = Str (source ! nat (n - 1))))
       \<and> (1 \<le> n \<and> n < 6 \<and> n \<le> int (length source) \<longrightarrow>
            (\<exists>w. fst (gatherContext e cfg c url (Num n)) = Some w \<and> length w < 11
                 \<and> w = map Str (take (nat (n + 5)) source)
                 \<and> w ! nat (n - 1) = Str (source ! nat (n - 1))))
       \<and> (source = [] \<or> min (int (length source)) (n + 5) \<le> max 0 (n - 6) \<longrightarrow>
            fst (gatherContext e cfg c url (Num n)) = None)"
proof (intro conjI impI)
  assume h: "6 \<le> n \<and> n + 5 \<le> int (length source)"
  let ?w = "map Str (take 11 (drop (nat (n - 6)) source))"
  have mx: "max 0 (n - 6) = n - 6" and mn: "min (int (length source)) (n + 5) = n + 5"
    using h by simp_all
  have d: "nat (n + 5 - (n - 6)) = 11" by simp
  have weq: "?w = map Str (take (nat (min (int (length source)) (n + 5) - max 0 (n - 6)))
                            (drop (nat (max 0 (n - 6))) source))"
    unfolding mx mn d ..
  have "11 \<le> length source - nat (n - 6)" using h by linarith
  then have len: "length ?w = 11" by simp
  have ne: "?w \<noteq> []" using len by auto
  have g: "fst (gatherContext e cfg c url (Num n)) = Some ?w"
    using gatherContext_Num_fst[OF loc src weq] ne by simp
  have idx: "nat (n - 6) + 5 = nat (n - 1)" using h by linarith
  have in5: "5 < length (take 11 (drop (nat (n - 6)) source))" using len by simp
  have dr: "nat (n - 6) + 5 < length source" using h by linarith
  have "take 11 (drop (nat (n - 6)) source) ! 5 = source ! (nat (n - 6) + 5)"
    using dr by simp
  then have "?w ! 5 = Str (source ! nat (n - 1))"
    using in5 idx by (simp only: nth_map)
  with g len show "\<exists>w. fst (gatherContext e cfg c url (Num n)) = Some w \<and> length w = 11
                 \<and> w = map Str (take 11 (drop (nat (n - 6)) source))
                 \<and> w ! 5 = Str (source ! nat (n - 1))" by blast
next
  assume h: "1 \<le> n \<and> n < 6 \<and> n \<le> int (length source)"
  let ?w = "map Str (take (nat (n + 5)) source)"
  have mx: "max 0 (n - 6) = 0" using h by simp
  have tk: "take (nat (min (int (length source)) (n + 5))) source = take (nat (n + 5)) source"
    by (cases "int (length source) \<le> n + 5") (simp_all add: min_def)
  have weq: "?w = map Str (take (nat (min (int (length source)) (n + 5) - max 0 (n - 6)))
                            (drop (nat (max 0 (n - 6))) source))"
    unfolding mx using tk by simp
  have n5: "nat (n + 5) < 11" using h by linarith
  have len: "length ?w < 11" using n5 by simp
  have ne: "?w \<noteq> []" using h by auto
  have "nat (n - 1) < length source" "nat (n - 1) < nat (n + 5)" using h by linarith+
  then have inw: "nat (n - 1) < length (take (nat (n + 5)) source)" by simp
  have g: "fst (gatherContext e cfg c url (Num n)) = Some ?w"
    using gatherContext_Num_fst[OF loc src weq] ne by simp
  have "take (nat (n + 5)) source ! nat (n - 1) = source ! nat (n - 1)"
    using h by simp
  then have "?w ! nat (n - 1) = Str (source ! nat (n - 1))"
    using inw by (simp only: nth_map)
  with g len show "\<exists>w. fst (gatherContext e cfg c url (Num n)) = Some w \<and> length w < 11
                 \<and> w = map Str (take (nat (n + 5)) source)
                 \<and> w ! nat (n - 1) = Str (source ! nat (n - 1))" by blast
next
  assume h: "source = [] \<or> min (int (length source)) (n + 5) \<le> max 0 (n - 6)"
  then have "map Str (take (nat (min (int (length source)) (n + 5) - max 0 (n - 6)))
                            (drop (nat (max 0 (n - 6))) source)) = []"
    by auto
  then show "fst (gatherContext e cfg c url (Num n)) = None"
    using gatherContext_Num_fst[OF loc src refl] by simp
qed

text \<open>
  The script of the example host, fetched with \<open>remoteFetching\<close> on: twelve lines.
\<close>

theorem gatherContext_window_witness:
  "linesOfContext (default_config\<lparr>remoteFetching := True\<rparr>) = 11
   \<and> fst (getSource demo_env (default_config\<lparr>remoteFetching := True\<rparr>) Map.empty (Str demo_url)) = demo_lines
   \<and> fst (gatherContext demo_env (default_config\<lparr>remoteFetching := True\<rparr>) Map.empty (Str demo_url) (Num 6))
       = Some (map Str [''l1'', ''l2'', ''l3'', ''l4'', ''l5'', ''l6'', ''l7'', ''l8'', ''l9'', ''l10'', ''l11''])
   \<and> fst (gatherContext demo_env (default_config\<lparr>remoteFetching := True\<rparr>) Map.empty (Str demo_url) (Num 2))
       = Some (map Str [''l1'', ''l2'', ''l3'', ''l4'', ''l5'', ''l6'', ''l7''])
   \<and> fst (gatherContext demo_env (default_config\<lparr>remoteFetching := True\<rparr>) Map.empty (Str demo_url) (Num 18))
       = None"
proof -
  let ?cfg = "default_config\<lparr>remoteFetching := True\<rparr>"
  have loc: "linesOfContext ?cfg = 11" by (simp add: default_config_def)
  have spl: "split_on newline (join_with [newline] demo_lines) = demo_lines"
    by (simp add: demo_lines_def newline_def)
  have ne: "join_with [newline] demo_lines \<noteq> []" by (simp add: demo_lines_def)
  have src: "getSource demo_env ?cfg Map.empty (Str demo_url)
               = (demo_lines, Map.empty(demo_url \<mapsto> demo_lines))"
    using ne by (simp add: getSource_def loadSource_def demo_env_def demo_re_exec_def grp_def
          default_config_def Let_def spl)
  have len: "length demo_lines = 12" by (simp add: demo_lines_def)
  note w = gatherContext_window[OF loc src]
  have a: "fst (gatherContext demo_env ?cfg Map.empty (Str demo_url) (Num 6))
       = Some (map Str [''l1'', ''l2'', ''l3'', ''l4'', ''l5'', ''l6'', ''l7'', ''l8'', ''l9'', ''l10'', ''l11''])"
    using w[of 6] by (simp add: len) (simp add: demo_lines_def)
  have b: "fst (gatherContext demo_env ?cfg Map.empty (Str demo_url) (Num 2))
       = Some (map Str [''l1'', ''l2'', ''l3'', ''l4'', ''l5'', ''l6'', ''l7''])"
    using w[of 2] by (simp add: len) (simp add: demo_lines_def)
  have c: "fst (gatherContext demo_env ?cfg Map.empty (Str demo_url) (Num 18)) = None"
    using w[of 18] by (simp add: len)
  show ?thesis using loc src a b c by simp
qed

subsection \<open>No source without remote fetching\<close>

lemma getSource_cases:
  "getSource e cfg c url = ([], c) \<and> (\<forall>u. url \<noteq> Str u)
   \<or> (\<exists>u ls. url = Str u \<and> c u = Some ls \<and> getSource e cfg c url = (ls, c))
   \<or> (\<exists>u ls. url = Str u \<and> c u = None \<and> getSource e cfg c url = (ls, c(u \<mapsto> ls))
        \<and> (\<not> remoteFetching cfg \<longrightarrow> ls = []))"
  by (cases url) (auto simp: getSource_def loadSource_def Let_def split: option.splits)

lemma cache_reachable_empty_entries:
  assumes nf: "\<not> remoteFetching cfg" and r: "cache_reachable e cfg c"
  shows "c u = Some ls \<Longrightarrow> ls = []"
  using r
proof (induction arbitrary: u ls rule: cache_reachable.induct)
  case start
  then show ?case by simp
next
  case (step c url)
  show ?case
    using getSource_cases[of e cfg c url] step.IH step.prems nf
    by (auto split: if_splits)
qed

lemma getSource_default_empty:
  assumes nf: "\<not> remoteFetching cfg" and r: "cache_reachable e cfg c"
  shows "fst (getSource e cfg c url) = []"
  using getSource_cases[of e cfg c url] cache_reachable_empty_entries[OF nf r] nf
  by auto

text \<open>
  C10. With \<open>remoteFetching\<close> off, getSource returns no lines for a url that is not
  cached, and caches that. So on every cache the program can reach, getSource returns
  no lines at all, guessFunctionName returns the unknown sentinel and gatherContext
  returns \<open>null\<close>, for every url and line, and the cache they leave is again one the
  program can reach.
\<close>

theorem default_config_no_source:
  assumes nf: "\<not> remoteFetching cfg"
  shows "(c u = None \<longrightarrow> getSource e cfg c (Str u) = ([], c(u \<mapsto> [])))
       \<and> (cache_reachable e cfg c \<longrightarrow>
            fst (getSource e cfg c url) = []
            \<and> fst (guessFunctionName e cfg c url line) = Str UNKNOWN_FUNCTION
            \<and> fst (gatherContext e cfg c url line) = None
            \<and> cache_reachable e cfg (snd (guessFunctionName e cfg c url line))
            \<and> cache_reachable e cfg (snd (gatherContext e cfg c url line)))"
proof (intro conjI impI)
  assume "c u = None"
  then show "getSource e cfg c (Str u) = ([], c(u \<mapsto> []))"
    using nf by (simp add: getSource_def loadSource_def Let_def split: option.splits)
next
  assume r: "cache_reachable e cfg c"
  show g: "fst (getSource e cfg c url) = []" by (rule getSource_default_empty[OF nf r])
  have s: "cache_reachable e cfg (snd (getSource e cfg c url))" by (rule cache_reachable.step[OF r])
  have 2: "guessFunctionName e cfg c url line = (Str UNKNOWN_FUNCTION, snd (getSource e cfg c url))"
    using g by (simp add: guessFunctionName_def split_beta)
  have 3: "gatherContext e cfg c url line = (None, snd (getSource e cfg c url))"
    using g by (simp add: gatherContext_def split_beta)
  show "fst (guessFunctionName e cfg c url line) = Str UNKNOWN_FUNCTION"
    "fst (gatherContext e cfg c url line) = None"
    "cache_reachable e cfg (snd (guessFunctionName e cfg c url line))"
    "cache_reachable e cfg (snd (gatherContext e cfg c url line))"
    using 2 3 s by simp_all
qed

text \<open>
  On the example host and the default configuration, from the empty cache and from
  the cache one lookup leaves.
\<close>

theorem default_config_no_source_witness:
  "\<not> remoteFetching default_config
   \<and> Map.empty demo_url = (None :: string list option)
   \<and> cache_reachable demo_env default_config [demo_url \<mapsto> []]
   \<and> getSource demo_env default_config Map.empty (Str demo_url) = ([], [demo_url \<mapsto> []])
   \<and> fst (guessFunctionName demo_env default_config [demo_url \<mapsto> []] (Str demo_url) (Num 3)) = Str ''?''
   \<and> fst (gatherContext demo_env default_config [demo_url \<mapsto> []] (Str demo_url) (Num 3)) = None"
proof -
  have nf: "\<not> remoteFetching default_config" by (simp add: default_config_def)
  have e: "Map.empty demo_url = (None :: string list option)" by simp
  note W = default_config_no_source[OF nf, of _ demo_url demo_env]
  have g: "getSource demo_env default_config Map.empty (Str demo_url) = ([], [demo_url \<mapsto> []])"
    using W[of Map.empty] e by blast
  have "cache_reachable demo_env default_config
          (snd (getSource demo_env default_config Map.empty (Str demo_url)))"
    by (rule cache_reachable.step[OF cache_reachable.start])
  then have r: "cache_reachable demo_env default_config [demo_url \<mapsto> []]" by (simp add: g)
  show ?thesis
    using W[of "[demo_url \<mapsto> []]" "Str demo_url" "Num 3"] nf e g r
    by (simp add: UNKNOWN_FUNCTION_def)
qed

subsection \<open>The example host, evaluated\<close>

lemmas demo_simps =
  demo_env_def demo_re_exec_def demo_obj_get_def demo_url_def demo_stack_line_def
  demo_stacktrace_line_def default_config_def newline_def grp_def get_prop_def readable_def
  UNKNOWN_FUNCTION_def js_or_def

lemma demo_stacktrace_strategy:
  "computeStackTraceFromStacktraceProp demo_env default_config Map.empty (Obj 7) =
     (Inr (Some \<lparr>t_name = Str ''Error'', t_message = Str ''boom'', t_mode = ''stacktrace'',
                 t_stack = Some [\<lparr>f_url = Str ''http://a.com/x.js'', f_func = Str ''f'', f_args = Some [],
                                  f_line = Num 3, f_column = Num 7,
                                  f_context = Some [Str ''    throw e;'']\<rparr>],
                 t_incomplete = None, t_partial = None\<rparr>),
      [demo_url \<mapsto> []])"
  by (simp add: computeStackTraceFromStacktraceProp_def opera_element_def opera_fill_def
      gatherContext_def getSource_def loadSource_def guessFunctionName_def demo_simps Let_def
      is_digit_def parse_digits_def digit_val_def)

lemma demo_stack_strategy:
  "computeStackTraceFromStackProp demo_env default_config Map.empty (Obj 7) =
     (Inr (Some \<lparr>t_name = Str ''Error'', t_message = Str ''boom'', t_mode = ''stack'',
                 t_stack = Some [\<lparr>f_url = Str ''http://a.com/x.js'', f_func = Str ''f'', f_args = Some [],
                                  f_line = Num 3, f_column = Num 7, f_context = None\<rparr>],
                 t_incomplete = None, t_partial = None\<rparr>),
      [demo_url \<mapsto> []])"
  by (simp add: computeStackTraceFromStackProp_def stackprop_element_def stackprop_fill_def
      chrome_element_def starts_with_def
      gatherContext_def getSource_def loadSource_def guessFunctionName_def demo_simps Let_def
      is_digit_def parse_digits_def digit_val_def)

lemma demo_guess: "guessFunctionName demo_env default_config Map.empty (Str demo_url) (Num 3)
                   = (Str ''?'', [demo_url \<mapsto> []])"
  by (simp add: guessFunctionName_def getSource_def loadSource_def demo_simps Let_def)

lemma demo_context: "gatherContext demo_env default_config [demo_url \<mapsto> []] (Str demo_url) (Num 3)
                   = (None, [demo_url \<mapsto> []])"
  by (simp add: gatherContext_def getSource_def)

subsection \<open>The order of the strategies\<close>

text \<open>
  C1, as the code has it. With \<open>debug\<close> off, computeStackTrace returns the trace of the
  first strategy that yields one, in the order: the stacktrace property, the stack
  property, the multi-line message, the caller walk. A strategy that throws counts as
  one that yields nothing, and each strategy runs on the source cache the earlier ones
  left. When none yields a trace the result is the object of mode \<open>failed\<close>, whose
  construction reads \<open>ex.name\<close> and so throws for \<open>null\<close> and \<open>undefined\<close>.
\<close>

theorem computeStackTrace_order:
  assumes nd: "\<not> debug cfg"
  shows "computeStackTrace e cfg callers c ex depth =
     (case first_result
             [\<lambda>c. computeStackTraceFromStacktraceProp e cfg c ex,
              \<lambda>c. computeStackTraceFromStackProp e cfg c ex,
              \<lambda>c. computeStackTraceFromOperaMultiLineMessage e cfg c ex,
              \<lambda>c. computeStackTraceByWalkingCallerChain e cfg callers c ex
                     (js_plus (norm_depth depth) (Num 1))] c of
        (Some t, c') \<Rightarrow> (Inr t, c')
      | (None, c') \<Rightarrow> (if readable ex then Inr (failed_trace e ex) else Inl TypeError, c'))"
  using nd
  by (simp add: computeStackTrace_def attempt_def split: prod.splits sum.splits option.splits)

text \<open>
  An error that carries both properties: the trace comes from the stacktrace property.
\<close>

theorem computeStackTrace_order_witness:
  "\<not> debug default_config
   \<and> computeStackTrace demo_env default_config None Map.empty (Obj 7) Undefined =
     (Inr \<lparr>t_name = Str ''Error'', t_message = Str ''boom'', t_mode = ''stacktrace'',
           t_stack = Some [\<lparr>f_url = Str ''http://a.com/x.js'', f_func = Str ''f'', f_args = Some [],
                            f_line = Num 3, f_column = Num 7,
                            f_context = Some [Str ''    throw e;'']\<rparr>],
           t_incomplete = None, t_partial = None\<rparr>,
      [demo_url \<mapsto> []])"
proof -
  have nd: "\<not> debug default_config" by (simp add: default_config_def)
  show ?thesis
    using computeStackTrace_order[OF nd, of demo_env None Map.empty "Obj 7" Undefined] nd
    by (simp add: demo_stacktrace_strategy)
qed

text \<open>
  C1 as stated puts the stack property first. On an error whose \<open>stack\<close> and
  \<open>stacktrace\<close> both parse, the stack strategy yields a trace of mode \<open>stack\<close>, which
  is what the stated order returns, and computeStackTrace returns the trace of mode
  \<open>stacktrace\<close>.
\<close>

theorem computeStackTrace_order_counterexample:
  "fst (computeStackTraceFromStackProp demo_env default_config Map.empty (Obj 7)) =
     Inr (Some \<lparr>t_name = Str ''Error'', t_message = Str ''boom'', t_mode = ''stack'',
                t_stack = Some [\<lparr>f_url = Str ''http://a.com/x.js'', f_func = Str ''f'', f_args = Some [],
                                 f_line = Num 3, f_column = Num 7, f_context = None\<rparr>],
                t_incomplete = None, t_partial = None\<rparr>)
   \<and> fst (spec_order_native_first demo_env default_config None Map.empty (Obj 7) Undefined) =
     Inr \<lparr>t_name = Str ''Error'', t_message = Str ''boom'', t_mode = ''stack'',
          t_stack = Some [\<lparr>f_url = Str ''http://a.com/x.js'', f_func = Str ''f'', f_args = Some [],
                           f_line = Num 3, f_column = Num 7, f_context = None\<rparr>],
          t_incomplete = None, t_partial = None\<rparr>
   \<and> fst (computeStackTrace demo_env default_config None Map.empty (Obj 7) Undefined) =
     Inr \<lparr>t_name = Str ''Error'', t_message = Str ''boom'', t_mode = ''stacktrace'',
          t_stack = Some [\<lparr>f_url = Str ''http://a.com/x.js'', f_func = Str ''f'', f_args = Some [],
                           f_line = Num 3, f_column = Num 7,
                           f_context = Some [Str ''    throw e;'']\<rparr>],
          t_incomplete = None, t_partial = None\<rparr>"
  by (simp add: computeStackTrace_def spec_order_native_first_def attempt_def
      demo_stacktrace_strategy demo_stack_strategy)

text \<open>
  Each strategy tags its trace with its own mode, and augmentation keeps the mode. So
  a trace of mode \<open>stack\<close> is returned only when the stacktrace property yielded none.
\<close>

lemma stacktrace_strategy_mode:
  "computeStackTraceFromStacktraceProp e cfg c ex = (Inr (Some t), c') \<Longrightarrow> t_mode t = ''stacktrace''"
  by (auto simp: computeStackTraceFromStacktraceProp_def
      split: if_splits jsval.splits prod.splits list.splits)

lemma stack_strategy_mode:
  "computeStackTraceFromStackProp e cfg c ex = (Inr (Some t), c') \<Longrightarrow> t_mode t = ''stack''"
  by (auto simp: computeStackTraceFromStackProp_def Let_def
      split: if_splits jsval.splits prod.splits list.splits sum.splits option.splits)

lemma multiline_strategy_mode:
  "computeStackTraceFromOperaMultiLineMessage e cfg c ex = (Inr (Some t), c') \<Longrightarrow> t_mode t = ''multiline''"
  by (auto simp: computeStackTraceFromOperaMultiLineMessage_def Let_def
      split: if_splits jsval.splits prod.splits list.splits sum.splits option.splits)

lemma augment_keeps_mode:
  "t_mode (fst (snd (augmentStackTraceWithInitialElement e cfg c tr url lineNo message))) = t_mode tr"
  by (auto simp: augmentStackTraceWithInitialElement_def Let_def split_beta
      split: option.splits list.splits)

lemma augment_keeps_mode':
  "augmentStackTraceWithInitialElement e cfg c tr url lineNo message = (r, tr', c') \<Longrightarrow>
   t_mode tr' = t_mode tr"
  using augment_keeps_mode[of e cfg c tr url lineNo message] by simp

lemma caller_walk_mode:
  assumes "computeStackTraceByWalkingCallerChain e cfg callers c ex d = (Inr (Some t), c')"
  shows "t_mode t = ''callers''"
  using assms
  by (auto simp: computeStackTraceByWalkingCallerChain_def Let_def
      split: option.splits prod.splits sum.splits if_splits dest!: augment_keeps_mode')

lemma computeStackTrace_stack_mode_after_stacktrace_failed:
  assumes nd: "\<not> debug cfg"
    and r: "computeStackTrace e cfg callers c ex depth = (Inr t, c')"
    and m: "t_mode t = ''stack''"
  shows "\<forall>t'. fst (computeStackTraceFromStacktraceProp e cfg c ex) \<noteq> Inr (Some t')"
proof (intro allI notI)
  fix t'
  assume a: "fst (computeStackTraceFromStacktraceProp e cfg c ex) = Inr (Some t')"
  then obtain c1 where s: "computeStackTraceFromStacktraceProp e cfg c ex = (Inr (Some t'), c1)"
    by (cases "computeStackTraceFromStacktraceProp e cfg c ex") auto
  then have "computeStackTrace e cfg callers c ex depth = (Inr t', c1)"
    by (simp add: computeStackTrace_def attempt_def)
  with r have "t = t'" by simp
  then show False using stacktrace_strategy_mode[OF s] m by simp
qed

subsection \<open>Values without any trace field\<close>

lemma walk_item_throws_TypeError:
  "walk_item e cfg c ex cur = (Inl x, c') \<Longrightarrow> x = TypeError"
  by (auto simp: walk_item_def Let_def split: prod.splits option.splits if_splits)

lemma walk_throws_TypeError:
  "walk e cfg ex seen chain c = (Inl x, c') \<Longrightarrow> x = TypeError"
proof (induction chain arbitrary: seen c c')
  case Nil
  then show ?case by simp
next
  case (Cons cur chain)
  then show ?case
    by (auto split: if_splits prod.splits sum.splits dest: walk_item_throws_TypeError)
qed

lemma strategies_unreadable:
  assumes "\<not> readable ex"
  shows "computeStackTraceFromStacktraceProp e cfg c ex = (Inl TypeError, c)"
    and "computeStackTraceFromStackProp e cfg c ex = (Inl TypeError, c)"
    and "computeStackTraceFromOperaMultiLineMessage e cfg c ex = (Inl TypeError, c)"
    and "fst (computeStackTraceByWalkingCallerChain e cfg callers c ex d) = Inl TypeError"
  using assms
  by (auto simp: computeStackTraceFromStacktraceProp_def computeStackTraceFromStackProp_def
      computeStackTraceFromOperaMultiLineMessage_def computeStackTraceByWalkingCallerChain_def
      split: option.splits prod.splits sum.splits dest: walk_throws_TypeError)

lemma computeStackTrace_returns:
  assumes "readable ex" "\<not> debug cfg"
  shows "\<exists>t c'. computeStackTrace e cfg callers c ex depth = (Inr t, c')"
  using assms
  by (auto simp: computeStackTrace_def attempt_def split: prod.splits sum.splits option.splits)

text \<open>
  For a value that can be read, has no \<open>stacktrace\<close>, no \<open>stack\<close> and no message of
  four lines, in strict code (where the caller chain cannot be read) and with \<open>debug\<close>
  off, the result is the object of mode \<open>failed\<close>, which has no \<open>stack\<close> property, and
  the cache is untouched.
\<close>

lemma computeStackTrace_failed:
  assumes rd: "readable ex" and nd: "\<not> debug cfg"
    and nst: "\<not> truthy (get_prop e ex ''stacktrace'')"
    and ns: "\<not> truthy (get_prop e ex ''stack'')"
    and nm: "\<forall>msg. get_prop e ex ''message'' = Str msg \<longrightarrow> length (split_on newline msg) < 4"
  shows "computeStackTrace e cfg None c ex depth = (Inr (failed_trace e ex), c)"
proof -
  have 1: "computeStackTraceFromStacktraceProp e cfg c ex = (Inr None, c)"
    using rd nst by (simp add: computeStackTraceFromStacktraceProp_def)
  have 2: "computeStackTraceFromStackProp e cfg c ex = (Inr None, c)"
    using rd ns by (simp add: computeStackTraceFromStackProp_def)
  have 3: "computeStackTraceFromOperaMultiLineMessage e cfg c ex = (Inr None, c)
           \<or> computeStackTraceFromOperaMultiLineMessage e cfg c ex = (Inl TypeError, c)"
    using rd nm by (auto simp: computeStackTraceFromOperaMultiLineMessage_def Let_def split: jsval.splits)
  have 4: "computeStackTraceByWalkingCallerChain e cfg None c ex d = (Inl TypeError, c)" for d
    by (simp add: computeStackTraceByWalkingCallerChain_def)
  show ?thesis
    using 3 rd nd by (auto simp: computeStackTrace_def attempt_def 1 2 4)
qed

text \<open>
  Where the caller chain can be read, the walk yields a trace for every readable
  value: the object of mode \<open>failed\<close> is reached in strict code only.
\<close>

lemma walk_item_readable:
  "readable ex \<Longrightarrow> \<exists>item c'. walk_item e cfg c ex cur = (Inr item, c')"
  by (auto simp: walk_item_def Let_def split: prod.splits option.splits)

lemma walk_readable:
  "readable ex \<Longrightarrow> \<exists>st c'. walk e cfg ex seen chain c = (Inr st, c')"
proof (induction chain arbitrary: seen c)
  case Nil
  then show ?case by simp
next
  case (Cons cur chain)
  obtain item c1 where i: "walk_item e cfg c ex cur = (Inr item, c1)"
    using walk_item_readable[OF Cons.prems] by blast
  obtain st c2 where w: "walk e cfg ex (fn_code cur # seen) chain c1 = (Inr st, c2)"
    using Cons.IH[OF Cons.prems] by blast
  show ?case
    using Cons.IH[OF Cons.prems, of seen c] i w by auto
qed

lemma augment_with_stack_returns:
  "t_stack tr \<noteq> None \<Longrightarrow>
   \<exists>b tr' c'. augmentStackTraceWithInitialElement e cfg c tr url lineNo message = (Inr b, tr', c')"
  by (auto simp: augmentStackTraceWithInitialElement_def Let_def split_beta split: list.splits)

lemma caller_walk_always_yields:
  assumes "readable ex"
  shows "\<exists>t c'. computeStackTraceByWalkingCallerChain e cfg (Some chain) c ex d = (Inr (Some t), c')"
proof -
  obtain st c1 where w: "walk e cfg ex [] chain c = (Inr st, c1)"
    using walk_readable[OF assms] by blast
  let ?result = "\<lparr>t_name = get_prop e ex ''name'', t_message = get_prop e ex ''message'',
                  t_mode = ''callers'', t_stack = Some (splice_head d st),
                  t_incomplete = None, t_partial = None\<rparr>"
  obtain b tr' c2 where "augmentStackTraceWithInitialElement e cfg c1 ?result
                             (js_or (get_prop e ex ''sourceURL'') (get_prop e ex ''fileName''))
                             (js_or (get_prop e ex ''line'') (get_prop e ex ''lineNumber''))
                             (js_or (get_prop e ex ''message'') (get_prop e ex ''description''))
                         = (Inr b, tr', c2)"
    using augment_with_stack_returns[of ?result] by fastforce
  then show ?thesis
    using assms w by (simp add: computeStackTraceByWalkingCallerChain_def)
qed

text \<open>
  C3 at the raised values \<open>undefined\<close> and \<open>null\<close>, which have no trace field at all:
  every strategy throws (the first three on their first property read, the caller
  walk at the latest when it reads \<open>ex.name\<close>), and so does the last statement, which
  stands outside every \<open>try\<close>. computeStackTrace throws a \<open>TypeError\<close>, whatever the
  host, the configuration and the call chain.
\<close>

theorem computeStackTrace_throws_on_undefined:
  "fst (computeStackTrace e cfg callers c Undefined depth) = Inl TypeError
   \<and> fst (computeStackTrace e cfg callers c Null depth) = Inl TypeError"
proof -
  have u: "\<not> readable Undefined" "\<not> readable Null" by (simp_all add: readable_def)
  have "fst (computeStackTrace e cfg callers c ex depth) = Inl TypeError" if nr: "\<not> readable ex" for ex
  proof -
    obtain c4 where w: "computeStackTraceByWalkingCallerChain e cfg callers c ex
                    (js_plus (norm_depth depth) (Num 1)) = (Inl TypeError, c4)"
      using strategies_unreadable(4)[OF nr, of e cfg callers c "js_plus (norm_depth depth) (Num 1)"]
      by (cases "computeStackTraceByWalkingCallerChain e cfg callers c ex
                    (js_plus (norm_depth depth) (Num 1))") auto
    show ?thesis
      using nr by (simp add: computeStackTrace_def attempt_def strategies_unreadable(1,2,3)[OF nr] w)
  qed
  then show ?thesis using u by blast
qed

subsection \<open>Augmentation\<close>

lemma falsy_not_strict_eq_truthy: "\<not> truthy a \<Longrightarrow> truthy b \<Longrightarrow> \<not> strict_eq a b"
  by (cases a; cases b) auto

text \<open>
  C4, as the code has it. \<open>func\<close> and \<open>context\<close> are the function name and the context
  looked up for the candidate. When url and line are both truthy, on a trace that has
  a frame list: if the top frame has the candidate's url and line, \<open>false\<close> is returned
  and the frames are unchanged; if it has the url, no line and the candidate's
  function name, its line and context are filled in, the other frames stay, and \<open>false\<close>
  is returned; otherwise the candidate becomes the new top frame, \<open>partial\<close> is set
  and \<open>true\<close> is returned. In all three cases \<open>incomplete\<close> is set to \<open>false\<close>. When url
  or line is falsy, \<open>incomplete\<close> is set to \<open>true\<close>, the frames are left alone and
  \<open>false\<close> is returned.
\<close>

theorem augment_merge_policy:
  fixes e cfg c tr url lineNo message
  defines "func \<equiv> fst (guessFunctionName e cfg c url lineNo)"
    and "context \<equiv> fst (gatherContext e cfg (snd (guessFunctionName e cfg c url lineNo)) url lineNo)"
    and "r \<equiv> fst (augmentStackTraceWithInitialElement e cfg c tr url lineNo message)"
    and "tr' \<equiv> fst (snd (augmentStackTraceWithInitialElement e cfg c tr url lineNo message))"
  shows "(truthy url \<and> truthy lineNo \<longrightarrow>
          (\<forall>fr0 rest. t_stack tr = Some (fr0 # rest) \<and> strict_eq (f_url fr0) url
               \<and> strict_eq (f_line fr0) lineNo
             \<longrightarrow> r = Inr False \<and> tr' = tr\<lparr>t_incomplete := Some False\<rparr>)
        \<and> (\<forall>fr0 rest. t_stack tr = Some (fr0 # rest) \<and> strict_eq (f_url fr0) url
               \<and> \<not> truthy (f_line fr0) \<and> strict_eq (f_func fr0) func
             \<longrightarrow> r = Inr False
                 \<and> tr' = tr\<lparr>t_incomplete := Some False,
                           t_stack := Some (fr0\<lparr>f_line := lineNo, f_context := context\<rparr> # rest)\<rparr>)
        \<and> (\<forall>frames. t_stack tr = Some frames
               \<and> (case frames of
                     [] \<Rightarrow> True
                   | fr0 # rest \<Rightarrow>
                       \<not> (strict_eq (f_url fr0) url \<and> strict_eq (f_line fr0) lineNo)
                       \<and> \<not> (strict_eq (f_url fr0) url \<and> \<not> truthy (f_line fr0)
                            \<and> strict_eq (f_func fr0) func))
             \<longrightarrow> r = Inr True
                 \<and> (\<exists>initial. f_url initial = url \<and> f_line initial = lineNo \<and> f_func initial = func
                      \<and> f_context initial = context
                      \<and> tr' = tr\<lparr>t_incomplete := Some False, t_stack := Some (initial # frames),
                                t_partial := Some True\<rparr>)))
     \<and> (\<not> (truthy url \<and> truthy lineNo) \<longrightarrow>
          r = Inr False \<and> tr' = tr\<lparr>t_incomplete := Some True\<rparr>
          \<and> t_stack tr' = t_stack tr)"
proof (intro conjI impI allI)
  fix fr0 rest
  assume p: "truthy url \<and> truthy lineNo"
    and h: "t_stack tr = Some (fr0 # rest) \<and> strict_eq (f_url fr0) url \<and> strict_eq (f_line fr0) lineNo"
  show "r = Inr False" "tr' = tr\<lparr>t_incomplete := Some False\<rparr>"
    using p h
    by (simp_all add: r_def tr'_def augmentStackTraceWithInitialElement_def Let_def split_beta)
next
  fix fr0 rest
  assume p: "truthy url \<and> truthy lineNo"
    and h: "t_stack tr = Some (fr0 # rest) \<and> strict_eq (f_url fr0) url
               \<and> \<not> truthy (f_line fr0) \<and> strict_eq (f_func fr0) func"
  have nl: "\<not> strict_eq (f_line fr0) lineNo"
    using p h by (simp add: falsy_not_strict_eq_truthy)
  show "r = Inr False"
    "tr' = tr\<lparr>t_incomplete := Some False,
                           t_stack := Some (fr0\<lparr>f_line := lineNo, f_context := context\<rparr> # rest)\<rparr>"
    using p h nl
    by (simp_all add: r_def tr'_def func_def context_def augmentStackTraceWithInitialElement_def
        Let_def split_beta)
next
  fix frames
  assume p: "truthy url \<and> truthy lineNo"
    and h: "t_stack tr = Some frames
               \<and> (case frames of
                     [] \<Rightarrow> True
                   | fr0 # rest \<Rightarrow>
                       \<not> (strict_eq (f_url fr0) url \<and> strict_eq (f_line fr0) lineNo)
                       \<and> \<not> (strict_eq (f_url fr0) url \<and> \<not> truthy (f_line fr0)
                            \<and> strict_eq (f_func fr0) func))"
  show "r = Inr True"
    using p h
    by (cases frames)
       (auto simp: r_def func_def augmentStackTraceWithInitialElement_def Let_def split_beta)
  define col where "col = fst (case re_exec e ReQuotedName (to_string message) of
                                None \<Rightarrow> (Undefined,
                                   snd (gatherContext e cfg (snd (guessFunctionName e cfg c url lineNo)) url lineNo))
                              | Some m \<Rightarrow> findSourceInLine e cfg
                                   (snd (gatherContext e cfg (snd (guessFunctionName e cfg c url lineNo)) url lineNo))
                                   (grp m 1) url lineNo)"
  define init where "init = \<lparr>f_url = url, f_func = func, f_args = None, f_line = lineNo,
                             f_column = col, f_context = context\<rparr>"
  have "tr' = tr\<lparr>t_incomplete := Some False, t_stack := Some (init # frames), t_partial := Some True\<rparr>"
    using p h
    by (cases frames)
       (auto simp: tr'_def func_def context_def col_def init_def
          augmentStackTraceWithInitialElement_def Let_def split_beta)
  then show "\<exists>initial. f_url initial = url \<and> f_line initial = lineNo \<and> f_func initial = func
                      \<and> f_context initial = context
                      \<and> tr' = tr\<lparr>t_incomplete := Some False, t_stack := Some (initial # frames),
                                t_partial := Some True\<rparr>"
    by (intro exI[of _ init]) (simp add: init_def)
next
  assume n: "\<not> (truthy url \<and> truthy lineNo)"
  show "r = Inr False" "tr' = tr\<lparr>t_incomplete := Some True\<rparr>" "t_stack tr' = t_stack tr"
    using n by (auto simp: r_def tr'_def augmentStackTraceWithInitialElement_def)
qed

text \<open>
  The four cases on the example host: the same url and line; the same url, no line,
  unknown function on both sides; an empty frame list; a missing line.
\<close>

theorem augment_merge_policy_witness:
  "truthy (Str demo_url) \<and> truthy (Num 3) \<and> \<not> truthy Undefined
   \<and> fst (augmentStackTraceWithInitialElement demo_env default_config Map.empty
            (demo_trace [demo_frame]) (Str demo_url) (Num 3) (Str ''boom'')) = Inr False
   \<and> fst (snd (augmentStackTraceWithInitialElement demo_env default_config Map.empty
            (demo_trace [demo_frame]) (Str demo_url) (Num 3) (Str ''boom'')))
       = (demo_trace [demo_frame])\<lparr>t_incomplete := Some False\<rparr>
   \<and> fst (augmentStackTraceWithInitialElement demo_env default_config Map.empty
            (demo_trace [demo_frame_no_line]) (Str demo_url) (Num 3) (Str ''boom'')) = Inr False
   \<and> fst (snd (augmentStackTraceWithInitialElement demo_env default_config Map.empty
            (demo_trace [demo_frame_no_line]) (Str demo_url) (Num 3) (Str ''boom'')))
       = (demo_trace [demo_frame_no_line\<lparr>f_line := Num 3, f_context := None\<rparr>])\<lparr>t_incomplete := Some False\<rparr>
   \<and> fst (augmentStackTraceWithInitialElement demo_env default_config Map.empty
            (demo_trace []) (Str demo_url) (Num 3) (Str ''boom'')) = Inr True
   \<and> t_partial (fst (snd (augmentStackTraceWithInitialElement demo_env default_config Map.empty
            (demo_trace []) (Str demo_url) (Num 3) (Str ''boom'')))) = Some True
   \<and> map f_line (the (t_stack (fst (snd (augmentStackTraceWithInitialElement demo_env default_config
            Map.empty (demo_trace []) (Str demo_url) (Num 3) (Str ''boom''))))))
       = [Num 3]
   \<and> fst (augmentStackTraceWithInitialElement demo_env default_config Map.empty
            (demo_trace [demo_frame]) (Str demo_url) Undefined (Str ''boom'')) = Inr False
   \<and> fst (snd (augmentStackTraceWithInitialElement demo_env default_config Map.empty
            (demo_trace [demo_frame]) (Str demo_url) Undefined (Str ''boom'')))
       = demo_trace [demo_frame]"
proof -
  have f: "fst (guessFunctionName demo_env default_config Map.empty (Str demo_url) (Num 3)) = Str ''?''"
    by (simp add: demo_guess)
  have a: "t_stack (demo_trace [demo_frame]) = Some (demo_frame # [])
           \<and> strict_eq (f_url demo_frame) (Str demo_url) \<and> strict_eq (f_line demo_frame) (Num 3)"
    by (simp add: demo_trace_def demo_frame_def)
  have b: "t_stack (demo_trace [demo_frame_no_line]) = Some (demo_frame_no_line # [])
           \<and> strict_eq (f_url demo_frame_no_line) (Str demo_url) \<and> \<not> truthy (f_line demo_frame_no_line)
           \<and> strict_eq (f_func demo_frame_no_line) (Str ''?'')"
    by (simp add: demo_trace_def demo_frame_no_line_def)
  have c: "t_stack (demo_trace []) = Some []" by (simp add: demo_trace_def)
  note A = augment_merge_policy[where e=demo_env and cfg=default_config and c=Map.empty
             and tr="demo_trace [demo_frame]" and url="Str demo_url" and lineNo="Num 3" and message="Str ''boom''"]
  note B = augment_merge_policy[where e=demo_env and cfg=default_config and c=Map.empty
             and tr="demo_trace [demo_frame_no_line]" and url="Str demo_url" and lineNo="Num 3" and message="Str ''boom''"]
  note C = augment_merge_policy[where e=demo_env and cfg=default_config and c=Map.empty
             and tr="demo_trace []" and url="Str demo_url" and lineNo="Num 3" and message="Str ''boom''"]
  note D = augment_merge_policy[where e=demo_env and cfg=default_config and c=Map.empty
             and tr="demo_trace [demo_frame]" and url="Str demo_url" and lineNo="Undefined" and message="Str ''boom''"]
  have t: "truthy (Str demo_url) \<and> truthy (Num 3)" by (simp add: demo_url_def)
  have ra: "fst (augmentStackTraceWithInitialElement demo_env default_config Map.empty
            (demo_trace [demo_frame]) (Str demo_url) (Num 3) (Str ''boom'')) = Inr False
     \<and> fst (snd (augmentStackTraceWithInitialElement demo_env default_config Map.empty
            (demo_trace [demo_frame]) (Str demo_url) (Num 3) (Str ''boom'')))
       = (demo_trace [demo_frame])\<lparr>t_incomplete := Some False\<rparr>"
    using A t a by blast
  have rb: "fst (augmentStackTraceWithInitialElement demo_env default_config Map.empty
            (demo_trace [demo_frame_no_line]) (Str demo_url) (Num 3) (Str ''boom'')) = Inr False
     \<and> fst (snd (augmentStackTraceWithInitialElement demo_env default_config Map.empty
            (demo_trace [demo_frame_no_line]) (Str demo_url) (Num 3) (Str ''boom'')))
       = (demo_trace [demo_frame_no_line])\<lparr>t_incomplete := Some False,
            t_stack := Some (demo_frame_no_line\<lparr>f_line := Num 3,
               f_context := fst (gatherContext demo_env default_config
                  (snd (guessFunctionName demo_env default_config Map.empty (Str demo_url) (Num 3)))
                  (Str demo_url) (Num 3))\<rparr> # [])\<rparr>"
    using B t b unfolding f by blast
  have rc: "fst (augmentStackTraceWithInitialElement demo_env default_config Map.empty
            (demo_trace []) (Str demo_url) (Num 3) (Str ''boom'')) = Inr True
     \<and> (\<exists>initial. f_line initial = Num 3
          \<and> fst (snd (augmentStackTraceWithInitialElement demo_env default_config Map.empty
            (demo_trace []) (Str demo_url) (Num 3) (Str ''boom'')))
          = (demo_trace [])\<lparr>t_incomplete := Some False, t_stack := Some (initial # []),
                t_partial := Some True\<rparr>)"
    using C t c by (auto split: list.splits)
  have rd: "fst (augmentStackTraceWithInitialElement demo_env default_config Map.empty
            (demo_trace [demo_frame]) (Str demo_url) Undefined (Str ''boom'')) = Inr False
     \<and> fst (snd (augmentStackTraceWithInitialElement demo_env default_config Map.empty
            (demo_trace [demo_frame]) (Str demo_url) Undefined (Str ''boom'')))
       = (demo_trace [demo_frame])\<lparr>t_incomplete := Some True\<rparr>"
    using D by simp
  show ?thesis
    using t ra rb rc rd
    by (auto simp: demo_guess demo_context demo_trace_def)
qed

text \<open>
  C4 as stated leaves the trace unchanged when url and line match the top frame. The
  code has cleared \<open>incomplete\<close> by then: a trace that was incomplete comes back
  different.
\<close>

theorem augment_unchanged_counterexample:
  "t_stack (demo_trace [demo_frame]) = Some [demo_frame]
   \<and> strict_eq (f_url demo_frame) (Str demo_url) \<and> strict_eq (f_line demo_frame) (Num 3)
   \<and> fst (augmentStackTraceWithInitialElement demo_env default_config Map.empty
            (demo_trace [demo_frame]) (Str demo_url) (Num 3) (Str ''boom'')) = Inr False
   \<and> fst (snd (augmentStackTraceWithInitialElement demo_env default_config Map.empty
            (demo_trace [demo_frame]) (Str demo_url) (Num 3) (Str ''boom'')))
       \<noteq> demo_trace [demo_frame]
   \<and> t_incomplete (demo_trace [demo_frame]) = Some True
   \<and> t_incomplete (fst (snd (augmentStackTraceWithInitialElement demo_env default_config Map.empty
            (demo_trace [demo_frame]) (Str demo_url) (Num 3) (Str ''boom'')))) = Some False"
  by (simp add: augmentStackTraceWithInitialElement_def demo_trace_def demo_frame_def
      demo_guess[unfolded demo_url_def] demo_url_def Let_def split_beta)

text \<open>
  A trace without a \<open>stack\<close> property (the one of mode \<open>failed\<close>) makes the call throw.
\<close>

lemma augment_without_stack_throws:
  "truthy url \<Longrightarrow> truthy lineNo \<Longrightarrow> t_stack tr = None \<Longrightarrow>
   fst (augmentStackTraceWithInitialElement e cfg c tr url lineNo message) = Inl TypeError"
  by (simp add: augmentStackTraceWithInitialElement_def Let_def split_beta)

subsection \<open>Dispatch to the subscribers\<close>

lemma notify_loop_log:
  "snd (notify_loop hs i st w err exc) = map (\<lambda>k. (k, st, w, err)) [i..<i + length hs]"
proof (induction hs arbitrary: i exc)
  case Nil
  then show ?case by simp
next
  case (Cons h hs)
  have "[i..<i + length (h # hs)] = i # [Suc i..<Suc i + length hs]"
    by (simp add: upt_rec)
  then show ?case using Cons.IH by (simp add: Let_def split_beta)
qed

lemma notify_loop_exc:
  "fst (notify_loop hs i st w err exc) =
     (case last_thrown hs st w err of Some v \<Rightarrow> v | None \<Rightarrow> exc)"
proof (induction hs arbitrary: i exc)
  case Nil
  then show ?case by (simp add: last_thrown_def List.map_filter_simps)
next
  case (Cons h hs)
  show ?case
    using Cons.IH
    by (cases "h st w err")
       (auto simp: Let_def split_beta last_thrown_def List.map_filter_simps split: list.splits)
qed

lemma notifyHandlers_eq:
  assumes "collectWindowErrors cfg \<or> \<not> w"
  shows "notifyHandlers cfg hs st w err =
     ((case last_thrown hs st w err of
         Some v \<Rightarrow> (if truthy v then Inl (Raised v) else Inr ())
       | None \<Rightarrow> Inr ()),
      deliveries (length hs) st w err)"
proof -
  obtain x l where nl: "notify_loop hs 0 st w err Null = (x, l)" by (cases "notify_loop hs 0 st w err Null")
  have l: "l = deliveries (length hs) st w err"
    using notify_loop_log[of hs 0 st w err Null] nl by (simp add: deliveries_def)
  have x: "x = (case last_thrown hs st w err of Some v \<Rightarrow> v | None \<Rightarrow> Null)"
    using notify_loop_exc[of hs 0 st w err Null] nl by simp
  show ?thesis using assms
    by (auto simp: notifyHandlers_def nl l x split: option.splits)
qed

lemma processLastException_eq:
  "processLastException cfg s =
     (fst (notifyHandlers cfg (handlers s) (lastExceptionStack s) False (lastException s)),
      s\<lparr>lastExceptionStack := None, lastException := Null,
        calls := calls s @ deliveries (length (handlers s)) (lastExceptionStack s) False (lastException s)\<rparr>)"
  by (simp add: processLastException_def Let_def split_beta notifyHandlers_eq)

text \<open>
  C7 at two subscribers that both throw. When the last value thrown is \<open>null\<close>,
  notifyHandlers returns normally: neither exception reaches the caller. In the
  other order the last one, an object, is thrown. Both subscribers are called, with
  the same arguments, either way.
\<close>

theorem notifyHandlers_swallows_falsy_exception:
  "notifyHandlers default_config [throwing_handler, null_throwing_handler] st False err
     = (Inr (), [(0, st, False, err), (1, st, False, err)])
   \<and> notifyHandlers default_config [null_throwing_handler, throwing_handler] st False err
     = (Inl (Raised (Obj 9)), [(0, st, False, err), (1, st, False, err)])"
  by (simp add: notifyHandlers_def throwing_handler_def null_throwing_handler_def default_config_def)

subsection \<open>The flush\<close>

text \<open>
  C9, as the code has it. processLastException clears the slot and then calls
  every subscriber with the pending trace, \<open>false\<close> and the pending error: the slot is
  empty afterwards on every path, also when a subscriber's exception leaves the call.
\<close>

theorem flush_clears_then_delivers:
  "lastExceptionStack (snd (processLastException cfg s)) = None
   \<and> lastException (snd (processLastException cfg s)) = Null
   \<and> calls (snd (processLastException cfg s))
       = calls s @ deliveries (length (handlers s)) (lastExceptionStack s) False (lastException s)
   \<and> fst (processLastException cfg s)
       = (case last_thrown (handlers s) (lastExceptionStack s) False (lastException s) of
            Some v \<Rightarrow> (if truthy v then Inl (Raised v) else Inr ())
          | None \<Rightarrow> Inr ())"
  by (simp add: processLastException_eq notifyHandlers_eq)

text \<open>
  C9 as stated delivers first and clears afterwards, so that an exception leaving
  the delivery would leave the slot occupied. With a subscriber that throws, the
  code's slot is empty after the flush; the stated order leaves the report in it.
\<close>

theorem flush_order_counterexample:
  "fst (processLastException default_config
          ((idle_state [throwing_handler])\<lparr>lastException := Obj 8,
              lastExceptionStack := Some (failed_trace demo_env (Obj 8))\<rparr>)) = Inl (Raised (Obj 9))
   \<and> lastExceptionStack (snd (processLastException default_config
          ((idle_state [throwing_handler])\<lparr>lastException := Obj 8,
              lastExceptionStack := Some (failed_trace demo_env (Obj 8))\<rparr>))) = None
   \<and> lastExceptionStack (snd (spec_flush_deliver_then_clear default_config
          ((idle_state [throwing_handler])\<lparr>lastException := Obj 8,
              lastExceptionStack := Some (failed_trace demo_env (Obj 8))\<rparr>)))
       = Some (failed_trace demo_env (Obj 8))"
  by (simp add: processLastException_def spec_flush_deliver_then_clear_def notifyHandlers_def
      idle_state_def throwing_handler_def default_config_def Let_def)

subsection \<open>report\<close>

lemma report_same_pending:
  "lastExceptionStack s \<noteq> None \<Longrightarrow> strict_eq (lastException s) ex \<Longrightarrow>
   report e cfg callers s ex = (Inr (), s)"
  by (simp add: report_def)

lemma report_idle:
  assumes idle: "lastExceptionStack s = None"
    and cst: "computeStackTrace e cfg callers (sourceCache s) ex Undefined = (Inr t, c')"
  shows "report e cfg callers s ex =
     (Inl (Raised ex),
      s\<lparr>sourceCache := c', lastExceptionStack := Some t, lastException := ex,
        timers := timers s @ [(ex, if t_incomplete t = Some True then 2000 else 0)]\<rparr>)"
  using idle cst by (simp add: report_def)

lemma report_idle_throws:
  assumes idle: "lastExceptionStack s = None"
    and cst: "computeStackTrace e cfg callers (sourceCache s) ex Undefined = (Inl x, c')"
  shows "report e cfg callers s ex = (Inl x, s\<lparr>sourceCache := c'\<rparr>)"
  using idle cst by (simp add: report_def)

lemma report_other_pending:
  assumes pend: "lastExceptionStack s \<noteq> None"
    and diff: "\<not> strict_eq (lastException s) ex"
    and flush: "processLastException cfg s = (Inr (), s0)"
    and cst: "computeStackTrace e cfg callers (sourceCache s0) ex Undefined = (Inr t, c')"
  shows "report e cfg callers s ex =
     (Inl (Raised ex),
      s0\<lparr>sourceCache := c', lastExceptionStack := Some t, lastException := ex,
         timers := timers s0 @ [(ex, if t_incomplete t = Some True then 2000 else 0)]\<rparr>)"
  using pend diff flush cst by (simp add: report_def)

lemma report_other_pending_flush_throws:
  assumes pend: "lastExceptionStack s \<noteq> None"
    and diff: "\<not> strict_eq (lastException s) ex"
    and flush: "processLastException cfg s = (Inl x, s0)"
  shows "report e cfg callers s ex = (Inl x, s0)"
  using pend diff flush by (simp add: report_def)

lemma report_idle_cases:
  assumes idle: "lastExceptionStack s = None"
    and rep: "report e cfg callers s ex = (r1, s1)"
    and pend: "lastExceptionStack s1 \<noteq> None"
  obtains t c' where "computeStackTrace e cfg callers (sourceCache s) ex Undefined = (Inr t, c')"
    and "r1 = Inl (Raised ex)"
    and "s1 = s\<lparr>sourceCache := c', lastExceptionStack := Some t, lastException := ex,
               timers := timers s @ [(ex, if t_incomplete t = Some True then 2000 else 0)]\<rparr>"
proof (cases "computeStackTrace e cfg callers (sourceCache s) ex Undefined")
  case (Pair a c')
  show ?thesis
  proof (cases a)
    case (Inl x)
    then have "s1 = s\<lparr>sourceCache := c'\<rparr>"
      using report_idle_throws[OF idle, of e cfg callers ex x c'] Pair rep by simp
    then show ?thesis using pend idle by simp
  next
    case (Inr t)
    then show ?thesis
      using report_idle[OF idle, of e cfg callers ex t c'] Pair rep that by simp
  qed
qed

lemma demo_computeStackTrace_7:
  "computeStackTrace demo_env default_config None Map.empty (Obj 7) Undefined =
     (Inr \<lparr>t_name = Str ''Error'', t_message = Str ''boom'', t_mode = ''stacktrace'',
           t_stack = Some [\<lparr>f_url = Str ''http://a.com/x.js'', f_func = Str ''f'', f_args = Some [],
                            f_line = Num 3, f_column = Num 7,
                            f_context = Some [Str ''    throw e;'']\<rparr>],
           t_incomplete = None, t_partial = None\<rparr>,
      [demo_url \<mapsto> []])"
  by (simp add: computeStackTrace_def attempt_def demo_stacktrace_strategy)

lemma demo_computeStackTrace_8:
  "computeStackTrace demo_env default_config None c (Obj 8) Undefined
     = (Inr (failed_trace demo_env (Obj 8)), c)"
  by (rule computeStackTrace_failed)
     (simp_all add: readable_def default_config_def get_prop_def demo_env_def demo_obj_get_def newline_def)

lemma demo_report_7:
  "report demo_env default_config None (idle_state hs) (Obj 7) =
     (Inl (Raised (Obj 7)),
      (idle_state hs)\<lparr>sourceCache := [demo_url \<mapsto> []], lastExceptionStack := Some demo_stacktrace_trace,
         lastException := Obj 7, timers := [(Obj 7, 0)]\<rparr>)"
proof -
  have idle: "lastExceptionStack (idle_state hs) = None" by (simp add: idle_state_def)
  have c: "computeStackTrace demo_env default_config None (sourceCache (idle_state hs)) (Obj 7) Undefined
           = (Inr demo_stacktrace_trace, [demo_url \<mapsto> []])"
    by (simp add: idle_state_def demo_computeStackTrace_7 demo_stacktrace_trace_def)
  show ?thesis using report_idle[OF idle c] by (simp add: demo_stacktrace_trace_def idle_state_def)
qed

text \<open>
  C2, as the code has it, for a value other than \<open>null\<close> and \<open>undefined\<close> and with
  \<open>debug\<close> off. When a report for the same error is pending, report returns normally
  and changes nothing. When nothing is pending, and when another error is pending
  and its flush raises nothing, report throws the error it was given.
\<close>

theorem report_rethrows_unless_same_pending:
  assumes nd: "\<not> debug cfg" and rd: "readable ex"
  shows "(lastExceptionStack s \<noteq> None \<and> strict_eq (lastException s) ex
            \<longrightarrow> report e cfg callers s ex = (Inr (), s))
       \<and> (lastExceptionStack s = None
            \<longrightarrow> fst (report e cfg callers s ex) = Inl (Raised ex))
       \<and> (lastExceptionStack s \<noteq> None \<and> \<not> strict_eq (lastException s) ex
            \<and> fst (processLastException cfg s) = Inr ()
            \<longrightarrow> fst (report e cfg callers s ex) = Inl (Raised ex))"
proof (intro conjI impI)
  assume "lastExceptionStack s \<noteq> None \<and> strict_eq (lastException s) ex"
  then show "report e cfg callers s ex = (Inr (), s)" by (simp add: report_same_pending)
next
  assume idle: "lastExceptionStack s = None"
  obtain t c' where "computeStackTrace e cfg callers (sourceCache s) ex Undefined = (Inr t, c')"
    using computeStackTrace_returns[OF rd nd] by blast
  then show "fst (report e cfg callers s ex) = Inl (Raised ex)"
    using report_idle[OF idle] by simp
next
  assume h: "lastExceptionStack s \<noteq> None \<and> \<not> strict_eq (lastException s) ex
            \<and> fst (processLastException cfg s) = Inr ()"
  obtain s0 where fl: "processLastException cfg s = (Inr (), s0)"
    using h by (cases "processLastException cfg s") auto
  obtain t c' where "computeStackTrace e cfg callers (sourceCache s0) ex Undefined = (Inr t, c')"
    using computeStackTrace_returns[OF rd nd] by blast
  then show "fst (report e cfg callers s ex) = Inl (Raised ex)"
    using report_other_pending[OF _ _ fl] h by simp
qed

text \<open>
  The three cases on the example host.
\<close>

theorem report_rethrows_unless_same_pending_witness:
  "\<not> debug default_config \<and> readable (Obj 7)
   \<and> fst (report demo_env default_config None (idle_state [quiet_handler]) (Obj 7)) = Inl (Raised (Obj 7))
   \<and> fst (report demo_env default_config None
            (snd (report demo_env default_config None (idle_state [quiet_handler]) (Obj 7))) (Obj 7))
       = Inr ()
   \<and> fst (report demo_env default_config None
            (snd (report demo_env default_config None (idle_state [quiet_handler]) (Obj 8))) (Obj 7))
       = Inl (Raised (Obj 7))"
proof -
  have nd: "\<not> debug default_config" by (simp add: default_config_def)
  have rd: "readable (Obj 7)" by (simp add: readable_def)
  let ?s = "idle_state [quiet_handler]"
  let ?s7 = "snd (report demo_env default_config None ?s (Obj 7))"
  let ?s8 = "snd (report demo_env default_config None ?s (Obj 8))"
  have idle: "lastExceptionStack ?s = None" by (simp add: idle_state_def)
  have p7: "lastExceptionStack ?s7 \<noteq> None \<and> strict_eq (lastException ?s7) (Obj 7)"
    by (simp add: demo_report_7)
  have c8: "computeStackTrace demo_env default_config None (sourceCache ?s) (Obj 8) Undefined
             = (Inr (failed_trace demo_env (Obj 8)), sourceCache ?s)"
    by (rule demo_computeStackTrace_8)
  have s8: "?s8 = ?s\<lparr>sourceCache := sourceCache ?s, lastExceptionStack := Some (failed_trace demo_env (Obj 8)),
               lastException := Obj 8, timers := timers ?s @ [(Obj 8, 0)]\<rparr>"
    using report_idle[OF idle c8] by (simp add: failed_trace_def)
  have p8: "lastExceptionStack ?s8 \<noteq> None \<and> \<not> strict_eq (lastException ?s8) (Obj 7)
            \<and> fst (processLastException default_config ?s8) = Inr ()"
    unfolding s8
    by (simp add: processLastException_eq notifyHandlers_eq last_thrown_def List.map_filter_simps
        idle_state_def quiet_handler_def)
  note A = report_rethrows_unless_same_pending[OF nd rd, of ?s7 demo_env None]
  note B = report_rethrows_unless_same_pending[OF nd rd, of ?s demo_env None]
  note C = report_rethrows_unless_same_pending[OF nd rd, of ?s8 demo_env None]
  have a: "fst (report demo_env default_config None ?s7 (Obj 7)) = Inr ()" using A p7 by simp
  have b: "fst (report demo_env default_config None ?s (Obj 7)) = Inl (Raised (Obj 7))" using B idle by blast
  have c: "fst (report demo_env default_config None ?s8 (Obj 7)) = Inl (Raised (Obj 7))" using C p8 by blast
  show ?thesis using nd rd a b c by simp
qed

text \<open>
  C2 as stated has report re-raise on every path. Called again with the error that
  is pending, it returns.
\<close>

theorem report_same_pending_counterexample:
  "lastExceptionStack (snd (report demo_env default_config None (idle_state [quiet_handler]) (Obj 7))) \<noteq> None
   \<and> lastException (snd (report demo_env default_config None (idle_state [quiet_handler]) (Obj 7))) = Obj 7
   \<and> fst (report demo_env default_config None
            (snd (report demo_env default_config None (idle_state [quiet_handler]) (Obj 7))) (Obj 7))
       = Inr ()
   \<and> fst (report demo_env default_config None
            (snd (report demo_env default_config None (idle_state [quiet_handler]) (Obj 7))) (Obj 7))
       \<noteq> Inl (Raised (Obj 7))"
  by (simp add: demo_report_7 report_same_pending)

text \<open>
  C5. From a state with nothing pending and no callback waiting, let a first
  \<open>report(ex)\<close> leave its report pending. A second \<open>report(ex)\<close> with the same reference
  returns normally and changes nothing; no subscriber has been called yet; and once
  the waiting callbacks have run every subscriber has been called exactly once, with
  the trace of the first call, \<open>false\<close> and \<open>ex\<close>, and nothing is pending.
\<close>

theorem report_twice_same_error:
  assumes idle: "lastExceptionStack s = None"
    and quiet: "timers s = []"
    and first: "report e cfg callers s ex = (r1, s1)"
    and pend: "lastExceptionStack s1 \<noteq> None"
    and self: "strict_eq ex ex"
  shows "report e cfg callers s1 ex = (Inr (), s1)
       \<and> calls s1 = calls s
       \<and> calls (run_timers cfg (snd (report e cfg callers s1 ex)))
           = calls s @ deliveries (length (handlers s)) (lastExceptionStack s1) False ex
       \<and> lastExceptionStack (run_timers cfg (snd (report e cfg callers s1 ex))) = None
       \<and> timers (run_timers cfg (snd (report e cfg callers s1 ex))) = []"
proof -
  obtain t c' where r1: "r1 = Inl (Raised ex)"
    and s1: "s1 = s\<lparr>sourceCache := c', lastExceptionStack := Some t, lastException := ex,
               timers := timers s @ [(ex, if t_incomplete t = Some True then 2000 else 0)]\<rparr>"
    using report_idle_cases[OF idle first pend] by metis
  have second: "report e cfg callers s1 ex = (Inr (), s1)"
    using self by (simp add: report_same_pending s1)
  have run: "run_timers cfg s1 = snd (processLastException cfg (s1\<lparr>timers := []\<rparr>))"
    using self quiet by (simp add: run_timers_def s1 timer_fire_def)
  show ?thesis
    unfolding second
    by (simp add: run processLastException_eq) (simp add: s1)
qed

text \<open>
  Two subscribers, the second of which throws: each is called once.
\<close>

theorem report_twice_same_error_witness:
  "lastExceptionStack (idle_state [quiet_handler, throwing_handler]) = None
   \<and> timers (idle_state [quiet_handler, throwing_handler]) = []
   \<and> lastExceptionStack (snd (report demo_env default_config None
         (idle_state [quiet_handler, throwing_handler]) (Obj 7))) \<noteq> None
   \<and> strict_eq (Obj 7) (Obj 7)
   \<and> fst (report demo_env default_config None
         (snd (report demo_env default_config None (idle_state [quiet_handler, throwing_handler]) (Obj 7)))
         (Obj 7)) = Inr ()
   \<and> calls (run_timers default_config (snd (report demo_env default_config None
         (snd (report demo_env default_config None (idle_state [quiet_handler, throwing_handler]) (Obj 7)))
         (Obj 7))))
       = [(0, lastExceptionStack (snd (report demo_env default_config None
               (idle_state [quiet_handler, throwing_handler]) (Obj 7))), False, Obj 7),
          (1, lastExceptionStack (snd (report demo_env default_config None
               (idle_state [quiet_handler, throwing_handler]) (Obj 7))), False, Obj 7)]"
proof -
  let ?s = "idle_state [quiet_handler, throwing_handler]"
  let ?s1 = "snd (report demo_env default_config None ?s (Obj 7))"
  have idle: "lastExceptionStack ?s = None" and quiet: "timers ?s = []"
    by (simp_all add: idle_state_def)
  have first: "report demo_env default_config None ?s (Obj 7)
               = (fst (report demo_env default_config None ?s (Obj 7)), ?s1)" by simp
  have pend: "lastExceptionStack ?s1 \<noteq> None" by (simp add: demo_report_7)
  have self: "strict_eq (Obj 7) (Obj 7)" by simp
  have d: "deliveries (length (handlers ?s)) st False (Obj 7) = [(0, st, False, Obj 7), (1, st, False, Obj 7)]"
    for st by (simp add: deliveries_def idle_state_def upt_rec)
  have c0: "calls ?s = []" by (simp add: idle_state_def)
  note W = report_twice_same_error[OF idle quiet first pend self]
  have a: "fst (report demo_env default_config None ?s1 (Obj 7)) = Inr ()"
    using W by simp
  have b: "calls (run_timers default_config (snd (report demo_env default_config None ?s1 (Obj 7))))
           = [(0, lastExceptionStack ?s1, False, Obj 7), (1, lastExceptionStack ?s1, False, Obj 7)]"
    using conjunct1[OF conjunct2[OF conjunct2[OF W]]] by (simp only: d c0 append_Nil)
  show ?thesis
    using idle quiet pend self a b by blast
qed

text \<open>
  C6, as the code has it. From a state with nothing pending and no callback waiting,
  with \<open>debug\<close> off, for two distinct objects: if no subscriber's exception leaves the
  flush of the first report, then both calls throw the error they were given, the
  second call has the first trace delivered before it returns, and once the waiting
  callbacks have run the subscribers have been called with the first trace and then
  with the second, once each.
\<close>

theorem report_two_distinct_errors:
  assumes idle: "lastExceptionStack s = None"
    and quiet: "timers s = []"
    and nd: "\<not> debug cfg"
    and distinct: "r1 \<noteq> r2"
    and first: "report e cfg callers s (Obj r1) = (x1, s1)"
    and second: "report e cfg callers s1 (Obj r2) = (x2, s2)"
    and nothrow: "fst (notifyHandlers cfg (handlers s) (lastExceptionStack s1) False (Obj r1)) = Inr ()"
  shows "x1 = Inl (Raised (Obj r1)) \<and> x2 = Inl (Raised (Obj r2))
       \<and> (\<exists>t1 t2. fst (computeStackTrace e cfg callers (sourceCache s) (Obj r1) Undefined) = Inr t1
            \<and> fst (computeStackTrace e cfg callers (sourceCache s1) (Obj r2) Undefined) = Inr t2
            \<and> calls s1 = calls s
            \<and> calls s2 = calls s @ deliveries (length (handlers s)) (Some t1) False (Obj r1)
            \<and> calls (run_timers cfg s2)
                = calls s @ deliveries (length (handlers s)) (Some t1) False (Obj r1)
                          @ deliveries (length (handlers s)) (Some t2) False (Obj r2)
            \<and> lastExceptionStack (run_timers cfg s2) = None)"
proof -
  have rd1: "readable (Obj r1)" and rd2: "readable (Obj r2)" by (simp_all add: readable_def)
  obtain t1 c1 where c1: "computeStackTrace e cfg callers (sourceCache s) (Obj r1) Undefined = (Inr t1, c1)"
    using computeStackTrace_returns[OF rd1 nd] by blast
  define d1 :: nat where "d1 = (if t_incomplete t1 = Some True then 2000 else 0)"
  have r1: "x1 = Inl (Raised (Obj r1))"
    and s1: "s1 = s\<lparr>sourceCache := c1, lastExceptionStack := Some t1, lastException := Obj r1,
               timers := [(Obj r1, d1)]\<rparr>"
    using report_idle[OF idle c1] first quiet by (simp_all add: d1_def)
  have pend: "lastExceptionStack s1 \<noteq> None" and diff: "\<not> strict_eq (lastException s1) (Obj r2)"
    using distinct by (simp_all add: s1)
  define s0 where "s0 = s1\<lparr>lastExceptionStack := None, lastException := Null,
        calls := calls s1 @ deliveries (length (handlers s1)) (lastExceptionStack s1) False (lastException s1)\<rparr>"
  have fl: "processLastException cfg s1 = (Inr (), s0)"
    using nothrow by (simp add: processLastException_eq s0_def) (simp add: s1)
  obtain t2 c2 where c2: "computeStackTrace e cfg callers (sourceCache s0) (Obj r2) Undefined = (Inr t2, c2)"
    using computeStackTrace_returns[OF rd2 nd] by blast
  define d2 :: nat where "d2 = (if t_incomplete t2 = Some True then 2000 else 0)"
  have r2: "x2 = Inl (Raised (Obj r2))"
    and s2: "s2 = s0\<lparr>sourceCache := c2, lastExceptionStack := Some t2, lastException := Obj r2,
               timers := timers s0 @ [(Obj r2, d2)]\<rparr>"
    using report_other_pending[OF pend diff fl c2] second by (simp_all add: d2_def)
  have cache0: "sourceCache s0 = sourceCache s1" by (simp add: s0_def)
  have calls2: "calls s2 = calls s @ deliveries (length (handlers s)) (Some t1) False (Obj r1)"
    by (simp add: s2 s0_def s1)
  have tm: "timers s2 = [(Obj r1, d1), (Obj r2, d2)]" by (simp add: s2 s0_def s1)
  have srt: "sort_key snd (timers s2) = [(Obj r1, d1), (Obj r2, d2)]
             \<or> sort_key snd (timers s2) = [(Obj r2, d2), (Obj r1, d1)]"
    by (auto simp: tm)
  have le2: "lastException s2 = Obj r2" by (simp add: s2)
  have run: "run_timers cfg s2 = snd (processLastException cfg (s2\<lparr>timers := []\<rparr>))"
    using srt distinct le2
    by (auto simp: run_timers_def timer_fire_def processLastException_eq)
  have callsr: "calls (run_timers cfg s2)
                = calls s @ deliveries (length (handlers s)) (Some t1) False (Obj r1)
                          @ deliveries (length (handlers s)) (Some t2) False (Obj r2)"
    by (simp add: run processLastException_eq calls2) (simp add: s2 s0_def s1)
  have idle2: "lastExceptionStack (run_timers cfg s2) = None"
    by (simp add: run processLastException_eq)
  show ?thesis
    using r1 r2 c1 c2 cache0 calls2 callsr idle2 by (simp add: s1[symmetric]) (simp add: s1)
qed

text \<open>
  On the example host the two deliveries are the trace of mode \<open>stacktrace\<close> for
  object 7 and then the one of mode \<open>failed\<close> for object 8.
\<close>

theorem report_two_distinct_errors_witness:
  "lastExceptionStack (idle_state [quiet_handler]) = None
   \<and> timers (idle_state [quiet_handler]) = []
   \<and> \<not> debug default_config
   \<and> (7 :: nat) \<noteq> 8
   \<and> fst (notifyHandlers default_config (handlers (idle_state [quiet_handler]))
         (lastExceptionStack (snd (report demo_env default_config None (idle_state [quiet_handler]) (Obj 7))))
         False (Obj 7)) = Inr ()
   \<and> map (\<lambda>(i, st, w, err). (i, map_option t_mode st, w, err))
       (calls (run_timers default_config (snd (report demo_env default_config None
         (snd (report demo_env default_config None (idle_state [quiet_handler]) (Obj 7)))
         (Obj 8)))))
       = [(0, Some ''stacktrace'', False, Obj 7), (0, Some ''failed'', False, Obj 8)]"
proof -
  let ?s = "idle_state [quiet_handler]"
  let ?s1 = "snd (report demo_env default_config None ?s (Obj 7))"
  let ?s2 = "snd (report demo_env default_config None ?s1 (Obj 8))"
  have idle: "lastExceptionStack ?s = None" and quiet: "timers ?s = []"
    by (simp_all add: idle_state_def)
  have nd: "\<not> debug default_config" by (simp add: default_config_def)
  have ne: "(7 :: nat) \<noteq> 8" by simp
  have first: "report demo_env default_config None ?s (Obj 7)
               = (fst (report demo_env default_config None ?s (Obj 7)), ?s1)" by simp
  have second: "report demo_env default_config None ?s1 (Obj 8)
               = (fst (report demo_env default_config None ?s1 (Obj 8)), ?s2)" by simp
  have nothrow: "fst (notifyHandlers default_config (handlers ?s) (lastExceptionStack ?s1) False (Obj 7)) = Inr ()"
    by (simp add: notifyHandlers_def idle_state_def quiet_handler_def default_config_def)
  have c7: "fst (computeStackTrace demo_env default_config None (sourceCache ?s) (Obj 7) Undefined) = Inr demo_stacktrace_trace"
    by (simp add: idle_state_def demo_computeStackTrace_7 demo_stacktrace_trace_def)
  have c8: "fst (computeStackTrace demo_env default_config None (sourceCache ?s1) (Obj 8) Undefined)
            = Inr (failed_trace demo_env (Obj 8))"
    by (simp add: demo_computeStackTrace_8)
  have d: "deliveries (length (handlers ?s)) st False x = [(0, st, False, x)]"
    for st x by (simp add: deliveries_def idle_state_def)
  have c0: "calls ?s = []" by (simp add: idle_state_def)
  have "calls (run_timers default_config ?s2)
          = [(0, Some demo_stacktrace_trace, False, Obj 7), (0, Some (failed_trace demo_env (Obj 8)), False, Obj 8)]"
    using report_two_distinct_errors[OF idle quiet nd ne first second nothrow] c7 c8
    by (auto simp: d c0)
  then show ?thesis
    using idle quiet nd nothrow by (simp add: demo_stacktrace_trace_def failed_trace_def)
qed

text \<open>
  C6 as stated promises two deliveries. With a subscriber that throws, the second
  call leaves with the subscriber's exception before it stores its error: that error
  is never delivered.
\<close>

theorem report_two_distinct_errors_counterexample:
  "fst (report demo_env default_config None (idle_state [throwing_handler]) (Obj 7)) = Inl (Raised (Obj 7))
   \<and> fst (report demo_env default_config None
           (snd (report demo_env default_config None (idle_state [throwing_handler]) (Obj 7))) (Obj 8))
       = Inl (Raised (Obj 9))
   \<and> map (\<lambda>(i, st, w, err). err)
       (calls (run_timers default_config (snd (report demo_env default_config None
         (snd (report demo_env default_config None (idle_state [throwing_handler]) (Obj 7)))
         (Obj 8)))))
       = [Obj 7]"
proof -
  let ?s = "idle_state [throwing_handler]"
  let ?s1 = "?s\<lparr>sourceCache := [demo_url \<mapsto> []], lastExceptionStack := Some demo_stacktrace_trace,
         lastException := Obj 7, timers := [(Obj 7, 0)]\<rparr>"
  have r1: "report demo_env default_config None ?s (Obj 7) = (Inl (Raised (Obj 7)), ?s1)"
    by (rule demo_report_7)
  have pend: "lastExceptionStack ?s1 \<noteq> None" and diff: "\<not> strict_eq (lastException ?s1) (Obj 8)"
    by simp_all
  let ?s0 = "?s1\<lparr>lastExceptionStack := None, lastException := Null,
                calls := [(0, Some demo_stacktrace_trace, False, Obj 7)]\<rparr>"
  have fl: "processLastException default_config ?s1 = (Inl (Raised (Obj 9)), ?s0)"
    by (simp add: processLastException_def notifyHandlers_def idle_state_def throwing_handler_def
        default_config_def Let_def)
  have r2: "report demo_env default_config None ?s1 (Obj 8) = (Inl (Raised (Obj 9)), ?s0)"
    by (rule report_other_pending_flush_throws[OF pend diff fl])
  have run: "calls (run_timers default_config ?s0) = [(0, Some demo_stacktrace_trace, False, Obj 7)]"
    by (simp add: run_timers_def timer_fire_def idle_state_def)
  show ?thesis by (simp only: r1 r2 fst_conv snd_conv run) simp
qed


end
